theory Spec2Isabelle
  imports Main "HOL-Library.Word"
begin

section \<open>The GraphQL client of graphql.go\<close>

text \<open>
  The development embeds \<^verbatim>\<open>graphql.go\<close>: the client record, the two entry points
  \<^verbatim>\<open>Query\<close> and \<^verbatim>\<open>Mutate\<close>, the worker \<^verbatim>\<open>do\<close> behind them, and the two error
  types \<^verbatim>\<open>GraphQLErrors\<close> and \<^verbatim>\<open>OptionError\<close>.

  \<^verbatim>\<open>do\<close> is effectful. It writes through the pointer \<^verbatim>\<open>v\<close> and it calls code of
  other packages. The state it works on is a record holding the value behind \<^verbatim>\<open>v\<close>
  and the list of outside calls made so far, oldest first; every function that has an
  effect takes the state and returns the new one. The functions of other packages are
  fields of a record of collaborators, so every theorem holds for all of them.
\<close>

subsection \<open>JSON values\<close>

text \<open>
  A JSON document as a tree. A number keeps its literal text. The members of an object
  are listed in the order in which they are written.
\<close>

datatype json =
  JNull
| JBool bool
| JNumber string
| JString string
| JArray "json list"
| JObject "(string \<times> json) list"

subsection \<open>Errors\<close>

text \<open>
  \<^verbatim>\<open>type GraphQLErrors []struct{ Message; Locations; Path; Extensions }\<close>
\<close>

record Location =
  Line :: int
  Column :: int

record GraphQLError =
  Message :: string
  Locations :: "Location list"
  Path :: "json list"
  Extensions :: "(string \<times> json) list"

type_synonym GraphQLErrors = "GraphQLError list"

text \<open>
  The arguments of the one \<^verbatim>\<open>fmt.Errorf\<close> call of the file: \<^verbatim>\<open>resp.Status\<close>, a string,
  and \<^verbatim>\<open>body\<close>, a byte slice.
\<close>

datatype fmt_arg = ArgString string | ArgBytes string

text \<open>
  A value of Go's \<^verbatim>\<open>error\<close> interface, by the type of the value inside:
  \<^item> \<open>Foreign m\<close>: an error of any type this package does not declare, named by its
    message;
  \<^item> \<open>OptionError e\<close>: \<^verbatim>\<open>&OptionError{Err: e}\<close>;
  \<^item> \<open>Errorf f args\<close>: the result of \<^verbatim>\<open>fmt.Errorf(f, args...)\<close>;
  \<^item> \<open>GraphQLErrors es\<close>: the slice \<open>es\<close> returned through the interface.
  A nil error is \<open>None\<close> of \<open>error option\<close>. Every function that can fail returns a
  value of this type, of whichever form: \<^verbatim>\<open>do\<close> hands the error of a collaborator back
  as it got it.
\<close>

datatype error =
  Foreign string
| OptionError error
| Errorf string "fmt_arg list"
| GraphQLErrors GraphQLErrors

text \<open>
  \<^verbatim>\<open>func (e GraphQLErrors) Error() string { return e[0].Message }\<close>
  Indexing an empty slice panics; the panic is \<open>None\<close>.
\<close>

definition GraphQLErrors_Error :: "GraphQLErrors \<Rightarrow> string option" where
  "GraphQLErrors_Error e = (if 0 < length e then Some (Message (e ! 0)) else None)"

text \<open>
  \<^verbatim>\<open>func (e *OptionError) Unwrap() error { return e.Err }\<close>
  The method belongs to \<^verbatim>\<open>*OptionError\<close> only: on any other error value there is
  nothing to call, which is \<open>None\<close>.
\<close>

fun OptionError_Unwrap :: "error \<Rightarrow> error option" where
  "OptionError_Unwrap (OptionError e) = Some e"
| "OptionError_Unwrap _ = None"

subsection \<open>Requests, responses, the client\<close>

text \<open>
  \<^verbatim>\<open>*http.Request\<close>, as far as the file and its collaborators look at it. The body is
  kept as the JSON value that the bytes written by the encoder stand for.
\<close>

record 'c request =
  Ctx :: 'c
  Method :: string
  URL :: string
  Header :: "(string \<times> string list) list"
  ReqBody :: json

text \<open>
  \<^verbatim>\<open>textproto.CanonicalMIMEHeaderKey\<close>: the first letter and every letter after a hyphen
  in upper case, the other letters in lower case. A key with a space or with any other
  byte that is not allowed in a header field name is returned as it is.
\<close>

definition validHeaderFieldByte :: "char \<Rightarrow> bool" where
  "validHeaderFieldByte c =
     (let n = (of_char c :: nat)
      in (48 \<le> n \<and> n \<le> 57) \<or> (65 \<le> n \<and> n \<le> 90) \<or> (97 \<le> n \<and> n \<le> 122)
         \<or> n \<in> {33, 35, 36, 37, 38, 39, 42, 43, 45, 46, 94, 95, 96, 124, 126})"

fun canonical_from :: "bool \<Rightarrow> string \<Rightarrow> string" where
  "canonical_from upper [] = []"
| "canonical_from upper (c # cs) =
     (let n = (of_char c :: nat);
          c' = (if upper \<and> 97 \<le> n \<and> n \<le> 122 then char_of (n - 32)
                else if \<not> upper \<and> 65 \<le> n \<and> n \<le> 90 then char_of (n + 32)
                else c)
      in c' # canonical_from (c' = CHR ''-'') cs)"

definition CanonicalMIMEHeaderKey :: "string \<Rightarrow> string" where
  "CanonicalMIMEHeaderKey k = (if list_all validHeaderFieldByte k then canonical_from True k else k)"

text \<open>
  \<^verbatim>\<open>req.Header.Set(key, value)\<close> stores the single value under the canonical form of the
  key, in place of whatever that key held.
\<close>

fun Header_store :: "(string \<times> string list) list \<Rightarrow> string \<Rightarrow> string list \<Rightarrow> (string \<times> string list) list" where
  "Header_store [] k vs = [(k, vs)]"
| "Header_store ((k', vs') # h) k vs = (if k' = k then (k, vs) # h else (k', vs') # Header_store h k vs)"

definition Header_Set :: "(string \<times> string list) list \<Rightarrow> string \<Rightarrow> string \<Rightarrow> (string \<times> string list) list" where
  "Header_Set h k v = Header_store h (CanonicalMIMEHeaderKey k) [v]"

text \<open>
  The body of a response is a stream: it delivers the bytes \<open>content\<close> and then ends,
  with end of file (\<open>failure = None\<close>) or with a read error.
\<close>

record body =
  content :: string
  failure :: "error option"

record response =
  StatusCode :: int
  Status :: string
  Body :: body

text \<open>\<^verbatim>\<open>io.ReadAll\<close> returns the bytes read until end of file or until the first error.\<close>

definition ReadAll :: "body \<Rightarrow> string \<times> error option" where
  "ReadAll b = (content b, failure b)"

definition StatusOK :: int where
  "StatusOK = 200"

definition MethodPost :: string where
  "MethodPost = ''POST''"

text \<open>
  A request option, \<^verbatim>\<open>func(*http.Request) error\<close>: it may change the request it is
  given and may fail. An option is code of the caller, so its error is any error value.
\<close>

type_synonym 'c RequestOption = "'c request \<Rightarrow> error option \<times> 'c request"

text \<open>\<^verbatim>\<open>(*http.Client).Do\<close>: a response, or the error of the transport.\<close>

type_synonym 'c http_Client = "'c request \<Rightarrow> error + response"

record 'c Client =
  url :: string
  httpClient :: "'c http_Client"
  requestOptions :: "'c RequestOption list"

text \<open>
  \<^verbatim>\<open>NewClient\<close>: a nil \<^verbatim>\<open>httpClient\<close> (\<open>None\<close>) is replaced by \<^verbatim>\<open>http.DefaultClient\<close>,
  which is the first argument here.
\<close>

definition NewClient :: "'c http_Client \<Rightarrow> string \<Rightarrow> 'c http_Client option \<Rightarrow> 'c RequestOption list \<Rightarrow> 'c Client" where
  "NewClient DefaultClient u h opts =
     \<lparr>url = u,
      httpClient = (case h of None \<Rightarrow> DefaultClient | Some h' \<Rightarrow> h'),
      requestOptions = opts\<rparr>"

subsection \<open>Operations, variables, the payload\<close>

text \<open>\<^verbatim>\<open>type operationType uint8\<close> with \<^verbatim>\<open>queryOperation = iota\<close> and \<^verbatim>\<open>mutationOperation\<close>.\<close>

type_synonym operationType = "8 word"

definition queryOperation :: operationType where
  "queryOperation = 0"

definition mutationOperation :: operationType where
  "mutationOperation = 1"

text \<open>
  \<^verbatim>\<open>map[string]interface{}\<close>: the nil map is \<open>None\<close>; a map is \<open>Some\<close> of its entries,
  listed in ascending key order, the order in which \<^verbatim>\<open>encoding/json\<close> writes them.
\<close>

type_synonym 'v variables = "(string \<times> 'v) list option"

text \<open>
  The anonymous struct \<^verbatim>\<open>in\<close>:
  \<^verbatim>\<open>Query string `json:"query"`; Variables map[string]any `json:"variables,omitempty"`\<close>
\<close>

record 'v payload =
  Query :: string
  Variables :: "'v variables"

text \<open>
  The envelope \<^verbatim>\<open>out\<close>: \<^verbatim>\<open>Data *json.RawMessage; Errors GraphQLErrors\<close>. The pointer
  \<^verbatim>\<open>Data\<close> is nil (\<open>None\<close>) when the member \<^verbatim>\<open>data\<close> of the response is absent or is
  the literal \<^verbatim>\<open>null\<close>; otherwise it points to the raw bytes of the member.
\<close>

record envelope =
  Data :: "string option"
  Errors :: GraphQLErrors

subsection \<open>Collaborators and state\<close>

text \<open>
  The code \<^verbatim>\<open>do\<close> calls and the file does not hold. Each is a parameter, so every
  theorem holds whatever these functions do:
  \<^item> \<open>constructQuery\<close>, \<open>constructMutation\<close>: the query compiler of this package,
    \<^verbatim>\<open>constructQuery(v, variables) string\<close>. It looks at the type of the target and at
    the variable bindings and returns the document; it does not write through \<^verbatim>\<open>v\<close>;
  \<^item> \<open>Marshal\<close>: what \<^verbatim>\<open>encoding/json\<close> makes of one variable value, or its error;
  \<^item> \<open>NewRequestWithContext\<close>: \<^verbatim>\<open>http.NewRequestWithContext(ctx, method, url, body)\<close>;
  \<^item> \<open>Decode\<close>: \<^verbatim>\<open>json.NewDecoder(body).Decode(&out)\<close>, the envelope read from the body
    or the error of the decoder;
  \<^item> \<open>UnmarshalGraphQL\<close>: \<^verbatim>\<open>jsonutil.UnmarshalGraphQL(data, v)\<close>, the materializer. It
    writes through \<^verbatim>\<open>v\<close>, so it returns the new value behind \<^verbatim>\<open>v\<close> beside its
    error, and it may have written before it fails.
  Their errors are error values of any form; \<^verbatim>\<open>do\<close> returns them unchanged.
\<close>

record ('c, 't, 'v) collaborators =
  constructQuery :: "'t \<Rightarrow> 'v variables \<Rightarrow> string"
  constructMutation :: "'t \<Rightarrow> 'v variables \<Rightarrow> string"
  Marshal :: "'v \<Rightarrow> error + json"
  NewRequestWithContext :: "'c \<Rightarrow> string \<Rightarrow> string \<Rightarrow> json \<Rightarrow> error + 'c request"
  Decode :: "body \<Rightarrow> error + envelope"
  UnmarshalGraphQL :: "string \<Rightarrow> 't \<Rightarrow> error option \<times> 't"

text \<open>
  The outside calls \<^verbatim>\<open>do\<close> makes once the payload is encoded, with what they are
  given: building the request (method, URL, body), applying the option at an index of
  \<^verbatim>\<open>allOpts\<close>, sending a request, reading the whole body, decoding the envelope,
  materializing the data, and the deferred close of the body.
\<close>

datatype 'c call =
  CallNewRequest string string json
| CallOption nat
| CallSend "'c request"
| CallReadAll
| CallDecode
| CallUnmarshal string
| CallClose

record ('c, 't) state =
  target :: 't
  calls :: "'c call list"

definition log_call :: "'c call \<Rightarrow> ('c, 't) state \<Rightarrow> ('c, 't) state" where
  "log_call x s = s\<lparr>calls := calls s @ [x]\<rparr>"

subsection \<open>Encoding the payload\<close>

text \<open>
  \<^verbatim>\<open>json.NewEncoder(&buf).Encode(in)\<close>, read off the two field tags. The field
  \<^verbatim>\<open>query\<close> is always written. The field \<^verbatim>\<open>variables\<close> carries \<^verbatim>\<open>omitempty\<close>: it is
  left out when the map has length 0, which a nil map has too; otherwise it is the
  object of the entries, each value encoded in turn, and the first value that cannot
  be encoded fails the whole call.
\<close>

fun marshal_entries :: "('v \<Rightarrow> error + json) \<Rightarrow> (string \<times> 'v) list \<Rightarrow> error + (string \<times> json) list" where
  "marshal_entries m [] = Inr []"
| "marshal_entries m ((k, x) # kvs) =
     (case m x of
        Inl err \<Rightarrow> Inl err
      | Inr j \<Rightarrow>
         (case marshal_entries m kvs of
            Inl err \<Rightarrow> Inl err
          | Inr js \<Rightarrow> Inr ((k, j) # js)))"

definition Encode :: "('v \<Rightarrow> error + json) \<Rightarrow> 'v payload \<Rightarrow> error + json" where
  "Encode m p =
     (case Variables p of
        None \<Rightarrow> Inr (JObject [(''query'', JString (Query p))])
      | Some kvs \<Rightarrow>
         if length kvs = 0 then Inr (JObject [(''query'', JString (Query p))])
         else
           (case marshal_entries m kvs of
              Inl err \<Rightarrow> Inl err
            | Inr js \<Rightarrow> Inr (JObject [(''query'', JString (Query p)), (''variables'', JObject js)])))"

subsection \<open>The worker: do\<close>

text \<open>
  Lines 50 to 56, the switch on the operation. An operation that is neither constant
  leaves \<^verbatim>\<open>query\<close> at its zero value, the empty string.
\<close>

definition do_query :: "('c, 't, 'v) collaborators \<Rightarrow> operationType \<Rightarrow> 't \<Rightarrow> 'v variables \<Rightarrow> string" where
  "do_query env op v variables =
     (if op = queryOperation then constructQuery env v variables
      else if op = mutationOperation then constructMutation env v variables
      else [])"

text \<open>
  Lines 79 to 83, the loop over \<^verbatim>\<open>allOpts\<close>; \<open>i\<close> is the index of the head of the list.
  An option works on the request the options before it have left.
\<close>

fun apply_options :: "'c RequestOption list \<Rightarrow> nat \<Rightarrow> 'c request \<Rightarrow> ('c, 't) state \<Rightarrow> (error + 'c request) \<times> ('c, 't) state" where
  "apply_options [] i req s = (Inr req, s)"
| "apply_options (opt # rest) i req s =
     (case opt req of
        (Some err, req') \<Rightarrow> (Inl (OptionError err), log_call (CallOption i) s)
      | (None, req') \<Rightarrow> apply_options rest (Suc i) req' (log_call (CallOption i) s))"

text \<open>Line 73: \<^verbatim>\<open>req.Header.Set("Content-Type", "application/json")\<close>.\<close>

definition with_content_type :: "'c request \<Rightarrow> 'c request" where
  "with_content_type req = req\<lparr>Header := Header_Set (Header req) ''Content-Type'' ''application/json''\<rparr>"

text \<open>
  Lines 50 to 83: compile, encode, build the request, set the content type, apply the
  options of the client and then those of the call. The result is the request to send,
  or the error \<^verbatim>\<open>do\<close> returns.
\<close>

definition do_prepare :: "('c, 't, 'v) collaborators \<Rightarrow> 'c Client \<Rightarrow> 'c \<Rightarrow> operationType \<Rightarrow> ('c, 't) state \<Rightarrow> 'v variables \<Rightarrow> 'c RequestOption list \<Rightarrow> (error + 'c request) \<times> ('c, 't) state" where
  "do_prepare env c ctx op s variables opts =
     (case Encode (Marshal env) \<lparr>Query = do_query env op (target s) variables, Variables = variables\<rparr> of
        Inl err \<Rightarrow> (Inl err, s)
      | Inr buf \<Rightarrow>
         (case NewRequestWithContext env ctx MethodPost (url c) buf of
            Inl err \<Rightarrow> (Inl err, log_call (CallNewRequest MethodPost (url c) buf) s)
          | Inr req \<Rightarrow>
             apply_options (requestOptions c @ opts) 0 (with_content_type req)
               (log_call (CallNewRequest MethodPost (url c) buf) s)))"

text \<open>
  Lines 103 to 109: when \<^verbatim>\<open>out.Data\<close> is not nil the materializer runs on the target.
\<close>

definition do_materialize :: "('c, 't, 'v) collaborators \<Rightarrow> string option \<Rightarrow> ('c, 't) state \<Rightarrow> error option \<times> ('c, 't) state" where
  "do_materialize env d s =
     (case d of
        None \<Rightarrow> (None, s)
      | Some raw \<Rightarrow>
         (case UnmarshalGraphQL env raw (target s) of
            (err, v') \<Rightarrow> (err, log_call (CallUnmarshal raw) (s\<lparr>target := v'\<rparr>))))"

text \<open>
  Lines 90 to 113: the status check, the decoding of the envelope, materialization,
  and the errors of the server.
\<close>

definition do_receive :: "('c, 't, 'v) collaborators \<Rightarrow> response \<Rightarrow> ('c, 't) state \<Rightarrow> error option \<times> ('c, 't) state" where
  "do_receive env resp s =
     (if StatusCode resp \<noteq> StatusOK then
        (case ReadAll (Body resp) of
           (body, _) \<Rightarrow>
             (Some (Errorf ''non-200 OK status code: %v body: %q'' [ArgString (Status resp), ArgBytes body]),
              log_call CallReadAll s))
      else
        (case Decode env (Body resp) of
           Inl err \<Rightarrow> (Some err, log_call CallDecode s)
         | Inr out \<Rightarrow>
            (case do_materialize env (Data out) (log_call CallDecode s) of
               (Some err, s') \<Rightarrow> (Some err, s')
             | (None, s') \<Rightarrow>
                 if 0 < length (Errors out) then (Some (GraphQLErrors (Errors out)), s')
                 else (None, s'))))"

text \<open>
  \<^verbatim>\<open>do\<close>. \<open>v\<close> is the value behind the pointer before the call; the state returned holds
  the value behind it after the call and the outside calls the call has made. The
  deferred \<^verbatim>\<open>resp.Body.Close()\<close> runs last on every path that has a response.
\<close>

definition Client_do :: "('c, 't, 'v) collaborators \<Rightarrow> 'c Client \<Rightarrow> 'c \<Rightarrow> operationType \<Rightarrow> 't \<Rightarrow> 'v variables \<Rightarrow> 'c RequestOption list \<Rightarrow> error option \<times> ('c, 't) state" where
  "Client_do env c ctx op v variables opts =
     (case do_prepare env c ctx op \<lparr>target = v, calls = []\<rparr> variables opts of
        (Inl err, s) \<Rightarrow> (Some err, s)
      | (Inr req, s) \<Rightarrow>
         (case httpClient c req of
            Inl err \<Rightarrow> (Some err, log_call (CallSend req) s)
          | Inr resp \<Rightarrow>
             (case do_receive env resp (log_call (CallSend req) s) of
                (r, s') \<Rightarrow> (r, log_call CallClose s'))))"

definition Client_Query :: "('c, 't, 'v) collaborators \<Rightarrow> 'c Client \<Rightarrow> 'c \<Rightarrow> 't \<Rightarrow> 'v variables \<Rightarrow> 'c RequestOption list \<Rightarrow> error option \<times> ('c, 't) state" where
  "Client_Query env c ctx q variables opts = Client_do env c ctx queryOperation q variables opts"

definition Client_Mutate :: "('c, 't, 'v) collaborators \<Rightarrow> 'c Client \<Rightarrow> 'c \<Rightarrow> 't \<Rightarrow> 'v variables \<Rightarrow> 'c RequestOption list \<Rightarrow> error option \<times> ('c, 't) state" where
  "Client_Mutate env c ctx m variables opts = Client_do env c ctx mutationOperation m variables opts"

subsection \<open>Vocabulary of the statements\<close>

text \<open>
  The request a list of options leaves behind when each is applied to the result of
  the one before, and whether all of them succeed on the way.
\<close>

definition thread :: "'c RequestOption list \<Rightarrow> 'c request \<Rightarrow> 'c request" where
  "thread os req = fold (\<lambda>opt r. snd (opt r)) os req"

fun all_succeed :: "'c RequestOption list \<Rightarrow> 'c request \<Rightarrow> bool" where
  "all_succeed [] req = True"
| "all_succeed (opt # rest) req = (fst (opt req) = None \<and> all_succeed rest (snd (opt req)))"

fun is_send :: "'c call \<Rightarrow> bool" where
  "is_send (CallSend _) = True"
| "is_send _ = False"

fun is_unmarshal :: "'c call \<Rightarrow> bool" where
  "is_unmarshal (CallUnmarshal _) = True"
| "is_unmarshal _ = False"

fun is_option :: "'c call \<Rightarrow> bool" where
  "is_option (CallOption _) = True"
| "is_option _ = False"

definition sends :: "'c call list \<Rightarrow> nat" where
  "sends cs = length (filter is_send cs)"

subsection \<open>A sample client\<close>

text \<open>
  One concrete set of collaborators, used to run the theorems below on inputs: the
  target is a string, a context is the unit value, a variable is a JSON value or
  \<open>None\<close> for a value the encoder rejects. The decoder knows a handful of bodies by
  name, and the materializer accepts the data \<open>login\<close> only.
\<close>

definition ex_Marshal :: "json option \<Rightarrow> error + json" where
  "ex_Marshal x = (case x of None \<Rightarrow> Inl (Foreign ''json: unsupported type: chan int'') | Some j \<Rightarrow> Inr j)"

definition ex_error :: "string \<Rightarrow> GraphQLError" where
  "ex_error m = \<lparr>Message = m, Locations = [\<lparr>Line = 1, Column = 2\<rparr>], Path = [JString ''viewer''], Extensions = []\<rparr>"

definition ex_Decode :: "body \<Rightarrow> error + envelope" where
  "ex_Decode b =
     (if content b = ''data'' then Inr \<lparr>Data = Some ''login'', Errors = []\<rparr>
      else if content b = ''data+errors'' then Inr \<lparr>Data = Some ''login'', Errors = [ex_error ''rate limited'']\<rparr>
      else if content b = ''null+errors'' then Inr \<lparr>Data = None, Errors = [ex_error ''not found'', ex_error ''denied'']\<rparr>
      else if content b = ''list+errors'' then Inr \<lparr>Data = Some ''[]'', Errors = [ex_error ''rate limited'']\<rparr>
      else Inl (Foreign ''unexpected end of JSON input''))"

definition ex_UnmarshalGraphQL :: "string \<Rightarrow> string \<Rightarrow> error option \<times> string" where
  "ex_UnmarshalGraphQL raw v =
     (if raw = ''login'' then (None, ''gopher'') else (Some (Foreign ''unexpected token''), ''half''))"

definition ex_env :: "(unit, string, json option) collaborators" where
  "ex_env =
     \<lparr>constructQuery = (\<lambda>v variables. ''{viewer{login}}''),
      constructMutation = (\<lambda>v variables. ''mutation{star}''),
      Marshal = ex_Marshal,
      NewRequestWithContext = (\<lambda>ctx m u b.
         if u = [] then Inl (Foreign ''empty url'')
         else Inr \<lparr>Ctx = ctx, Method = m, URL = u, Header = [], ReqBody = b\<rparr>),
      Decode = ex_Decode,
      UnmarshalGraphQL = ex_UnmarshalGraphQL\<rparr>"

text \<open>
  The same collaborators with a target whose own \<^verbatim>\<open>UnmarshalJSON\<close> fails with the value
  \<^verbatim>\<open>GraphQLErrors{}\<close>: the materializer hands that error on.
\<close>

definition ex_env_handing :: "(unit, string, json option) collaborators" where
  "ex_env_handing = ex_env\<lparr>UnmarshalGraphQL := (\<lambda>raw v. (Some (GraphQLErrors []), v))\<rparr>"

definition ex_auth :: "unit RequestOption" where
  "ex_auth req = (None, req\<lparr>Header := Header_Set (Header req) ''Authorization'' ''token''\<rparr>)"

definition ex_agent :: "unit RequestOption" where
  "ex_agent req = (None, req\<lparr>Header := Header_Set (Header req) ''User-Agent'' ''ex''\<rparr>)"

definition ex_broken :: "unit RequestOption" where
  "ex_broken req = (Some (Foreign ''no token''), req)"

definition ex_client :: "string \<Rightarrow> (error + response) \<Rightarrow> unit Client" where
  "ex_client u answer = NewClient (\<lambda>req. Inl (Foreign ''no route'')) u (Some (\<lambda>req. answer)) [ex_auth]"

definition ex_response :: "int \<Rightarrow> string \<Rightarrow> string \<Rightarrow> response" where
  "ex_response code status text = \<lparr>StatusCode = code, Status = status, Body = \<lparr>content = text, failure = None\<rparr>\<rparr>"

definition ex_payload :: json where
  "ex_payload = JObject [(''query'', JString ''{viewer{login}}'')]"

definition ex_request :: "unit request" where
  "ex_request =
     \<lparr>Ctx = (), Method = ''POST'', URL = ''u'',
      Header = [(''Content-Type'', [''application/json'']), (''Authorization'', [''token''])],
      ReqBody = ex_payload\<rparr>"

section \<open>Properties\<close>

subsection \<open>The loop over the options\<close>

text \<open>
  The loop does not touch the target, logs one call per option it runs, and is decided
  by the first option that fails.
\<close>

lemma log_call_target: "target (log_call x s) = target s"
  by (simp add: log_call_def)

lemma apply_options_target: "target (snd (apply_options os i req s)) = target s"
  by (induction os arbitrary: i req s) (auto simp: log_call_target split: prod.splits option.splits)

lemma upt_head: "[i..<i + Suc n] = i # [Suc i..<Suc i + n]"
  by (simp add: upt_conv_Cons)

lemma apply_options_ok:
  "all_succeed os req \<Longrightarrow>
   apply_options os i req s = (Inr (thread os req), s\<lparr>calls := calls s @ map CallOption [i..<i + length os]\<rparr>)"
proof (induction os arbitrary: i req s)
  case Nil
  then show ?case by (simp add: thread_def)
next
  case (Cons opt rest)
  obtain r where r: "opt req = (None, r)"
    using Cons.prems by (cases "opt req") auto
  have "all_succeed rest r" using Cons.prems r by simp
  from Cons.IH [OF this, of "Suc i" "log_call (CallOption i) s"]
  have "apply_options rest (Suc i) r (log_call (CallOption i) s) =
          (Inr (thread rest r), s\<lparr>calls := calls s @ CallOption i # map CallOption [Suc i..<Suc i + length rest]\<rparr>)"
    by (simp add: log_call_def)
  moreover have "[i..<i + length (opt # rest)] = i # [Suc i..<Suc i + length rest]"
    using upt_head [of i "length rest"] by simp
  ultimately show ?case using r
    by (simp add: thread_def del: upt_Suc)
qed

lemma apply_options_fail:
  "all_succeed pre req \<Longrightarrow> fst (opt (thread pre req)) = Some err \<Longrightarrow>
   apply_options (pre @ opt # post) i req s =
     (Inl (OptionError err), s\<lparr>calls := calls s @ map CallOption [i..<i + Suc (length pre)]\<rparr>)"
proof (induction pre arbitrary: i req s)
  case Nil
  then show ?case by (cases "opt req") (simp add: thread_def log_call_def)
next
  case (Cons p pre)
  obtain r where r: "p req = (None, r)"
    using Cons.prems(1) by (cases "p req") auto
  have a: "all_succeed pre r" using Cons.prems(1) r by simp
  have b: "fst (opt (thread pre r)) = Some err" using Cons.prems(2) r by (simp add: thread_def)
  from Cons.IH [OF a b, of "Suc i" "log_call (CallOption i) s"]
  have "apply_options (pre @ opt # post) (Suc i) r (log_call (CallOption i) s) =
          (Inl (OptionError err), s\<lparr>calls := calls s @ CallOption i # map CallOption [Suc i..<Suc i + Suc (length pre)]\<rparr>)"
    by (simp add: log_call_def del: upt_Suc)
  moreover have "[i..<i + Suc (length (p # pre))] = i # [Suc i..<Suc i + Suc (length pre)]"
    using upt_head [of i "Suc (length pre)"] by simp
  ultimately show ?case using r
    by (simp del: upt_Suc)
qed

lemma apply_options_filter:
  "(\<And>n. \<not> P (CallOption n)) \<Longrightarrow>
   filter P (calls (snd (apply_options os i req s))) = filter P (calls s)"
  by (induction os arbitrary: i req s) (auto simp: log_call_def split: prod.splits option.splits)

lemma apply_options_extends:
  "\<exists>more. calls (snd (apply_options os i req s)) = calls s @ more"
proof (induction os arbitrary: i req s)
  case Nil
  then show ?case by simp
next
  case (Cons opt rest)
  obtain e r where o: "opt req = (e, r)" by (cases "opt req")
  show ?case
  proof (cases e)
    case None
    obtain more where
      "calls (snd (apply_options rest (Suc i) r (log_call (CallOption i) s))) =
       calls (log_call (CallOption i) s) @ more"
      using Cons.IH by blast
    then show ?thesis using o None by (simp add: log_call_def)
  next
    case (Some err)
    then show ?thesis using o by (simp add: log_call_def)
  qed
qed

lemma apply_options_error:
  "apply_options os i req s = (Inl err, s') \<Longrightarrow> \<exists>e. err = OptionError e"
  by (induction os arbitrary: i req s) (auto split: prod.splits option.splits)

subsection \<open>The phases of do\<close>

text \<open>
  What each phase returns, which calls it adds to the log, and what it does to the
  target; then \<^verbatim>\<open>do\<close> as a whole, split by the outcome of its first phase.
\<close>

lemma do_prepare_target: "target (snd (do_prepare env c ctx op s variables opts)) = target s"
  unfolding do_prepare_def
  by (simp add: apply_options_target log_call_target split: sum.splits)

lemma do_prepare_filter:
  assumes "\<And>n. \<not> P (CallOption n)" and "\<And>m u b. \<not> P (CallNewRequest m u b)"
  shows "filter P (calls (snd (do_prepare env c ctx op s variables opts))) = filter P (calls s)"
  unfolding do_prepare_def using assms
  by (simp add: apply_options_filter log_call_def split: sum.splits)

lemma do_prepare_first_call:
  assumes "Encode (Marshal env) \<lparr>Query = do_query env op (target s) variables, Variables = variables\<rparr> = Inr buf"
  shows "\<exists>more. calls (snd (do_prepare env c ctx op s variables opts)) =
           calls s @ CallNewRequest MethodPost (url c) buf # more"
proof (cases "NewRequestWithContext env ctx MethodPost (url c) buf")
  case (Inl err)
  then show ?thesis using assms by (simp add: do_prepare_def log_call_def)
next
  case (Inr req)
  obtain more where
    "calls (snd (apply_options (requestOptions c @ opts) 0 (with_content_type req)
        (log_call (CallNewRequest MethodPost (url c) buf) s))) =
     calls (log_call (CallNewRequest MethodPost (url c) buf) s) @ more"
    using apply_options_extends by blast
  then show ?thesis using assms Inr by (simp add: do_prepare_def log_call_def)
qed

lemma do_materialize_calls:
  "calls (snd (do_materialize env d s)) =
     calls s @ (case d of None \<Rightarrow> [] | Some raw \<Rightarrow> [CallUnmarshal raw])"
  by (simp add: do_materialize_def log_call_def split: option.splits prod.splits)

lemma do_materialize_target:
  "target (snd (do_materialize env d s)) =
     (case d of None \<Rightarrow> target s | Some raw \<Rightarrow> snd (UnmarshalGraphQL env raw (target s)))"
  by (simp add: do_materialize_def log_call_def split: option.splits prod.splits)

lemma do_materialize_error:
  "fst (do_materialize env d s) =
     (case d of None \<Rightarrow> None | Some raw \<Rightarrow> fst (UnmarshalGraphQL env raw (target s)))"
  by (simp add: do_materialize_def split: option.splits prod.splits)

lemma do_receive_status:
  "StatusCode resp \<noteq> StatusOK \<Longrightarrow>
   do_receive env resp s =
     (Some (Errorf ''non-200 OK status code: %v body: %q''
              [ArgString (Status resp), ArgBytes (content (Body resp))]),
      log_call CallReadAll s)"
  by (simp add: do_receive_def ReadAll_def)

lemma do_receive_undecoded:
  "StatusCode resp = StatusOK \<Longrightarrow> Decode env (Body resp) = Inl err \<Longrightarrow>
   do_receive env resp s = (Some err, log_call CallDecode s)"
  by (simp add: do_receive_def)

lemma do_receive_decoded:
  assumes "StatusCode resp = StatusOK" and "Decode env (Body resp) = Inr out"
  shows "fst (do_receive env resp s) =
           (case fst (do_materialize env (Data out) (log_call CallDecode s)) of
              Some err \<Rightarrow> Some err
            | None \<Rightarrow> if 0 < length (Errors out) then Some (GraphQLErrors (Errors out)) else None)"
    and "snd (do_receive env resp s) = snd (do_materialize env (Data out) (log_call CallDecode s))"
  using assms
  by (cases "do_materialize env (Data out) (log_call CallDecode s)";
      simp add: do_receive_def split: option.splits)+

lemma do_receive_calls:
  "calls (snd (do_receive env resp s)) =
     calls s @
     (if StatusCode resp \<noteq> StatusOK then [CallReadAll]
      else
        (case Decode env (Body resp) of
           Inl err \<Rightarrow> [CallDecode]
         | Inr out \<Rightarrow> CallDecode # (case Data out of None \<Rightarrow> [] | Some raw \<Rightarrow> [CallUnmarshal raw])))"
proof (cases "StatusCode resp = StatusOK")
  case False
  then show ?thesis by (simp add: do_receive_status log_call_def)
next
  case True
  show ?thesis
  proof (cases "Decode env (Body resp)")
    case (Inl err)
    then show ?thesis using True by (simp add: do_receive_undecoded log_call_def)
  next
    case (Inr out)
    then show ?thesis using True
      by (simp add: do_receive_decoded(2) do_materialize_calls log_call_def)
  qed
qed

lemma Client_do_unanswered:
  "do_prepare env c ctx op \<lparr>target = v, calls = []\<rparr> variables opts = (Inr req, s) \<Longrightarrow>
   httpClient c req = Inl err \<Longrightarrow>
   Client_do env c ctx op v variables opts = (Some err, log_call (CallSend req) s)"
  by (simp add: Client_do_def)

lemma Client_do_answered:
  assumes "do_prepare env c ctx op \<lparr>target = v, calls = []\<rparr> variables opts = (Inr req, s)"
    and "httpClient c req = Inr resp"
  shows "fst (Client_do env c ctx op v variables opts) = fst (do_receive env resp (log_call (CallSend req) s))"
    and "snd (Client_do env c ctx op v variables opts) =
           log_call CallClose (snd (do_receive env resp (log_call (CallSend req) s)))"
  using assms by (simp_all add: Client_do_def case_prod_beta)

lemma Client_do_refused:
  "do_prepare env c ctx op \<lparr>target = v, calls = []\<rparr> variables opts = (Inl err, s) \<Longrightarrow>
   Client_do env c ctx op v variables opts = (Some err, s)"
  by (simp add: Client_do_def)

lemma do_prepare_sends:
  "sends (calls (snd (do_prepare env c ctx op s variables opts))) = sends (calls s)"
  unfolding sends_def by (rule arg_cong [where f = length], rule do_prepare_filter) simp_all

lemma Client_do_sent:
  assumes "CallSend req \<in> set (calls (snd (Client_do env c ctx op v variables opts)))"
  shows "\<exists>s. do_prepare env c ctx op \<lparr>target = v, calls = []\<rparr> variables opts = (Inr req, s)"
proof -
  let ?p = "do_prepare env c ctx op \<lparr>target = v, calls = []\<rparr> variables opts"
  have nosend: "filter is_send (calls (snd ?p)) = []"
    using do_prepare_filter [of is_send env c ctx op "\<lparr>target = v, calls = []\<rparr>" variables opts] by simp
  obtain r s where p: "?p = (r, s)" by (cases ?p)
  have s: "filter is_send (calls s) = []" using nosend p by simp
  show ?thesis
  proof (cases r)
    case (Inl err)
    then have "Client_do env c ctx op v variables opts = (Some err, s)"
      using p by (simp add: Client_do_refused)
    then have "CallSend req \<in> set (filter is_send (calls s))" using assms by simp
    then show ?thesis using s by simp
  next
    case (Inr req')
    have rs: "filter is_send (calls (snd (do_receive env resp (log_call (CallSend req') s)))) = [CallSend req']" for resp
      using s by (simp add: do_receive_calls log_call_def split: sum.splits option.splits)
    have "filter is_send (calls (snd (Client_do env c ctx op v variables opts))) = [CallSend req']"
    proof (cases "httpClient c req'")
      case (Inl e)
      then show ?thesis using p Inr s by (simp add: Client_do_unanswered log_call_def)
    next
      case (Inr resp)
      then show ?thesis using p \<open>r = Inr req'\<close> rs [of resp]
        by (simp add: Client_do_answered(2) log_call_def)
    qed
    moreover have "CallSend req \<in> set (filter is_send (calls (snd (Client_do env c ctx op v variables opts))))"
      using assms by simp
    ultimately have "req = req'" by simp
    then show ?thesis using p Inr by simp
  qed
qed

lemma Client_do_round_trip:
  assumes "CallSend req \<in> set (calls (snd (Client_do env c ctx op v variables opts)))"
    and "httpClient c req = Inr resp"
  obtains s where "target s = v"
    and "sends (calls s) = 0"
    and "filter is_unmarshal (calls s) = []"
    and "fst (Client_do env c ctx op v variables opts) = fst (do_receive env resp (log_call (CallSend req) s))"
    and "snd (Client_do env c ctx op v variables opts) =
           log_call CallClose (snd (do_receive env resp (log_call (CallSend req) s)))"
proof -
  obtain s where p: "do_prepare env c ctx op \<lparr>target = v, calls = []\<rparr> variables opts = (Inr req, s)"
    using Client_do_sent [OF assms(1)] by blast
  have "target s = v"
    using do_prepare_target [of env c ctx op "\<lparr>target = v, calls = []\<rparr>" variables opts] p by simp
  moreover have "sends (calls s) = 0"
    using do_prepare_sends [of env c ctx op "\<lparr>target = v, calls = []\<rparr>" variables opts] p
    by (simp add: sends_def)
  moreover have "filter is_unmarshal (calls s) = []"
    using do_prepare_filter [of is_unmarshal env c ctx op "\<lparr>target = v, calls = []\<rparr>" variables opts] p
    by simp
  ultimately show ?thesis
    using that Client_do_answered [OF p assms(2)] by blast
qed

lemma thread_append: "thread (xs @ ys) req = thread ys (thread xs req)"
  by (simp add: thread_def)

lemma do_prepare_built:
  assumes "Encode (Marshal env) \<lparr>Query = do_query env op (target s) variables, Variables = variables\<rparr> = Inr buf"
    and "NewRequestWithContext env ctx MethodPost (url c) buf = Inr req"
  shows "do_prepare env c ctx op s variables opts =
           apply_options (requestOptions c @ opts) 0 (with_content_type req)
             (log_call (CallNewRequest MethodPost (url c) buf) s)"
  using assms by (simp add: do_prepare_def)

lemma Client_do_calls:
  assumes "do_prepare env c ctx op \<lparr>target = v, calls = []\<rparr> variables opts = (Inr req, s)"
  shows "\<exists>more. calls (snd (Client_do env c ctx op v variables opts)) = calls s @ CallSend req # more
           \<and> filter is_option more = [] \<and> filter is_send more = []"
proof (cases "httpClient c req")
  case (Inl err)
  then show ?thesis using assms by (simp add: Client_do_unanswered log_call_def)
next
  case (Inr resp)
  then show ?thesis using assms
    by (simp add: Client_do_answered(2) do_receive_calls log_call_def split: sum.splits option.splits)
qed

lemma Client_do_extends:
  "\<exists>more. calls (snd (Client_do env c ctx op v variables opts)) =
     calls (snd (do_prepare env c ctx op \<lparr>target = v, calls = []\<rparr> variables opts)) @ more"
proof -
  obtain r s where p: "do_prepare env c ctx op \<lparr>target = v, calls = []\<rparr> variables opts = (r, s)"
    by (cases "do_prepare env c ctx op \<lparr>target = v, calls = []\<rparr> variables opts")
  show ?thesis
  proof (cases r)
    case (Inl err)
    then show ?thesis using p by (simp add: Client_do_refused)
  next
    case (Inr req)
    then show ?thesis using p Client_do_calls [of env c ctx op v variables opts req s] by auto
  qed
qed

lemma marshal_entries_ok:
  "\<forall>(k, x) \<in> set kvs. \<exists>j. m x = Inr j \<Longrightarrow>
   \<exists>js. marshal_entries m kvs = Inr js \<and> list_all2 (\<lambda>(k, x) (k', j). k' = k \<and> m x = Inr j) kvs js"
  by (induction kvs) auto

lemma marshal_entries_error:
  "marshal_entries m kvs = Inl err \<Longrightarrow> \<exists>x. m x = Inl err"
  by (induction kvs) (auto split: sum.splits)

lemma Encode_error: "Encode m p = Inl err \<Longrightarrow> \<exists>x. m x = Inl err"
  by (auto simp: Encode_def split: option.splits if_splits sum.splits dest: marshal_entries_error)

lemma do_prepare_error:
  "do_prepare env c ctx op s variables opts = (Inl err, s') \<Longrightarrow>
   (\<exists>x. Marshal env x = Inl err)
   \<or> (\<exists>m u b. NewRequestWithContext env ctx m u b = Inl err)
   \<or> (\<exists>e. err = OptionError e)"
  unfolding do_prepare_def
  by (auto split: sum.splits dest: apply_options_error Encode_error)

lemma do_receive_GraphQLErrors:
  assumes "fst (do_receive env resp s) = Some (GraphQLErrors es)"
  shows "es \<noteq> []
       \<or> Decode env (Body resp) = Inl (GraphQLErrors es)
       \<or> (\<exists>raw. fst (UnmarshalGraphQL env raw (target s)) = Some (GraphQLErrors es))"
proof (cases "StatusCode resp = StatusOK")
  case False
  then show ?thesis using assms by (simp add: do_receive_status)
next
  case True
  show ?thesis
  proof (cases "Decode env (Body resp)")
    case (Inl err)
    then show ?thesis using assms True by (simp add: do_receive_undecoded)
  next
    case (Inr out)
    then show ?thesis using assms True
      by (auto simp: do_receive_decoded(1) do_materialize_error log_call_target
          split: option.splits if_splits)
  qed
qed

lemma Client_do_sends:
  "sends (calls (snd (Client_do env c ctx op v variables opts))) =
     (case fst (do_prepare env c ctx op \<lparr>target = v, calls = []\<rparr> variables opts) of
        Inl err \<Rightarrow> 0 | Inr req \<Rightarrow> 1)"
proof -
  obtain r s where p: "do_prepare env c ctx op \<lparr>target = v, calls = []\<rparr> variables opts = (r, s)"
    by (cases "do_prepare env c ctx op \<lparr>target = v, calls = []\<rparr> variables opts")
  have s: "sends (calls s) = 0"
    using do_prepare_sends [of env c ctx op "\<lparr>target = v, calls = []\<rparr>" variables opts] p
    by (simp add: sends_def)
  show ?thesis
  proof (cases r)
    case (Inl err)
    then show ?thesis using p s by (simp add: Client_do_refused)
  next
    case (Inr req)
    obtain more where "calls (snd (Client_do env c ctx op v variables opts)) = calls s @ CallSend req # more"
      and "filter is_send more = []"
      using Client_do_calls [of env c ctx op v variables opts req s] p Inr by blast
    then show ?thesis using p s Inr by (simp add: sends_def)
  qed
qed

subsection \<open>Evaluating the sample client\<close>

lemma canonical_sample_keys:
  "CanonicalMIMEHeaderKey ''Content-Type'' = ''Content-Type''"
  "CanonicalMIMEHeaderKey ''Authorization'' = ''Authorization''"
  "CanonicalMIMEHeaderKey ''User-Agent'' = ''User-Agent''"
  "CanonicalMIMEHeaderKey ''content-type'' = ''Content-Type''"
  "CanonicalMIMEHeaderKey ''x trace'' = ''x trace''"
  by code_simp+

lemmas ex_eval =
  Header_Set_def canonical_sample_keys
  Client_do_def do_prepare_def do_receive_def do_materialize_def do_query_def Encode_def
  with_content_type_def log_call_def ReadAll_def StatusOK_def MethodPost_def
  queryOperation_def mutationOperation_def NewClient_def
  Client_Query_def Client_Mutate_def
  ex_env_def ex_client_def ex_response_def ex_Decode_def ex_UnmarshalGraphQL_def ex_Marshal_def
  ex_auth_def ex_agent_def ex_broken_def ex_request_def ex_payload_def ex_error_def

section \<open>The claims\<close>

text \<open>
  Claim C1. The transport answers a request of \<^verbatim>\<open>do\<close> with status 200 and the envelope
  decoded from the body has \<^verbatim>\<open>data\<close> that is not null together with a non-empty
  \<^verbatim>\<open>errors\<close> array. Then the materializer is run on that data and the target holds what
  it wrote, and \<^verbatim>\<open>do\<close> returns an error, never nil: the errors of the server when the
  materializer succeeded, the error of the materializer otherwise. \<^verbatim>\<open>Query\<close> and
  \<^verbatim>\<open>Mutate\<close> are \<^verbatim>\<open>do\<close> at the two operations.
\<close>

theorem data_with_errors_is_failure:
  fixes env :: "('c, 't, 'v) collaborators" and c ctx op v variables opts
  defines "R \<equiv> Client_do env c ctx op v variables opts"
  assumes sent: "CallSend req \<in> set (calls (snd R))"
    and answered: "httpClient c req = Inr resp"
    and ok: "StatusCode resp = StatusOK"
    and decoded: "Decode env (Body resp) = Inr out"
    and data: "Data out = Some raw"
    and errors: "Errors out \<noteq> []"
  shows "fst R \<noteq> None
       \<and> fst R = (case fst (UnmarshalGraphQL env raw v) of
                    None \<Rightarrow> Some (GraphQLErrors (Errors out))
                  | Some err \<Rightarrow> Some err)
       \<and> CallUnmarshal raw \<in> set (calls (snd R))
       \<and> target (snd R) = snd (UnmarshalGraphQL env raw v)"
proof -
  obtain s where s: "target s = v"
    and r: "fst R = fst (do_receive env resp (log_call (CallSend req) s))"
    and t: "snd R = log_call CallClose (snd (do_receive env resp (log_call (CallSend req) s)))"
    using Client_do_round_trip [OF sent [unfolded R_def] answered] unfolding R_def by blast
  have result: "fst R = (case fst (UnmarshalGraphQL env raw v) of
                    None \<Rightarrow> Some (GraphQLErrors (Errors out))
                  | Some err \<Rightarrow> Some err)"
    using errors data s
    by (simp add: r do_receive_decoded(1) [OF ok decoded] do_materialize_error log_call_target
        split: option.splits)
  then have "fst R \<noteq> None"
    by (simp split: option.splits)
  moreover have "CallUnmarshal raw \<in> set (calls (snd R))"
    using ok decoded data by (simp add: t do_receive_calls log_call_def)
  moreover have "target (snd R) = snd (UnmarshalGraphQL env raw v)"
    using data s
    by (simp add: t do_receive_decoded(2) [OF ok decoded] do_materialize_target log_call_target)
  ultimately show ?thesis using result by simp
qed

text \<open>The theorem on the sample client.\<close>

theorem data_with_errors_is_failure_witness:
  "Client_Query ex_env (ex_client ''u'' (Inr (ex_response 200 ''200 OK'' ''data+errors''))) () ''old'' None [] =
     (Some (GraphQLErrors [ex_error ''rate limited'']),
      \<lparr>target = ''gopher'',
       calls = [CallNewRequest ''POST'' ''u'' ex_payload, CallOption 0, CallSend ex_request,
                CallDecode, CallUnmarshal ''login'', CallClose]\<rparr>)"
proof -
  let ?resp = "ex_response 200 ''200 OK'' ''data+errors''"
  let ?c = "ex_client ''u'' (Inr ?resp)"
  let ?R = "Client_do ex_env ?c () queryOperation ''old'' None []"
  have log: "calls (snd ?R) =
      [CallNewRequest ''POST'' ''u'' ex_payload, CallOption 0, CallSend ex_request,
       CallDecode, CallUnmarshal ''login'', CallClose]"
    by (simp add: ex_eval)
  have sent: "CallSend ex_request \<in> set (calls (snd ?R))"
    by (simp add: log)
  have answered: "httpClient ?c ex_request = Inr ?resp"
    by (simp add: ex_client_def NewClient_def)
  have ok: "StatusCode ?resp = StatusOK"
    by (simp add: ex_response_def StatusOK_def)
  have decoded: "Decode ex_env (Body ?resp) = Inr \<lparr>Data = Some ''login'', Errors = [ex_error ''rate limited'']\<rparr>"
    by (simp add: ex_env_def ex_response_def ex_Decode_def)
  have "fst ?R = Some (GraphQLErrors [ex_error ''rate limited'']) \<and> target (snd ?R) = ''gopher''"
    using data_with_errors_is_failure [OF sent answered ok decoded, of "''login''"]
    by (simp add: ex_env_def ex_UnmarshalGraphQL_def)
  then show ?thesis
    using log by (cases ?R) (simp add: Client_Query_def state.equality)
qed

text \<open>
  Claim C2. The transport answers with status 200 and the envelope has \<^verbatim>\<open>data\<close> null or
  absent (the pointer \<^verbatim>\<open>out.Data\<close> is nil) and a non-empty \<^verbatim>\<open>errors\<close> array. Then \<^verbatim>\<open>do\<close>
  returns the errors of the server as one \<^verbatim>\<open>GraphQLErrors\<close> value, the materializer is
  never called, and the target is what it was before the call.
\<close>

theorem null_data_with_errors:
  fixes env :: "('c, 't, 'v) collaborators" and c ctx op v variables opts
  defines "R \<equiv> Client_do env c ctx op v variables opts"
  assumes sent: "CallSend req \<in> set (calls (snd R))"
    and answered: "httpClient c req = Inr resp"
    and ok: "StatusCode resp = StatusOK"
    and decoded: "Decode env (Body resp) = Inr out"
    and data: "Data out = None"
    and errors: "Errors out \<noteq> []"
  shows "fst R = Some (GraphQLErrors (Errors out))
       \<and> target (snd R) = v
       \<and> filter is_unmarshal (calls (snd R)) = []"
proof -
  obtain s where s: "target s = v"
    and u: "filter is_unmarshal (calls s) = []"
    and r: "fst R = fst (do_receive env resp (log_call (CallSend req) s))"
    and t: "snd R = log_call CallClose (snd (do_receive env resp (log_call (CallSend req) s)))"
    using Client_do_round_trip [OF sent [unfolded R_def] answered] unfolding R_def by blast
  have "fst R = Some (GraphQLErrors (Errors out))"
    using errors data
    by (simp add: r do_receive_decoded(1) [OF ok decoded] do_materialize_error)
  moreover have "target (snd R) = v"
    using data s
    by (simp add: t do_receive_decoded(2) [OF ok decoded] do_materialize_target log_call_target)
  moreover have "filter is_unmarshal (calls (snd R)) = []"
    using ok decoded data u by (simp add: t do_receive_calls log_call_def)
  ultimately show ?thesis by simp
qed

text \<open>The theorem on the sample client.\<close>

theorem null_data_with_errors_witness:
  "Client_Mutate ex_env (ex_client ''u'' (Inr (ex_response 200 ''200 OK'' ''null+errors''))) () ''old'' None [] =
     (Some (GraphQLErrors [ex_error ''not found'', ex_error ''denied'']),
      \<lparr>target = ''old'',
       calls = [CallNewRequest ''POST'' ''u'' (JObject [(''query'', JString ''mutation{star}'')]),
                CallOption 0, CallSend (ex_request\<lparr>ReqBody := JObject [(''query'', JString ''mutation{star}'')]\<rparr>),
                CallDecode, CallClose]\<rparr>)"
proof -
  let ?resp = "ex_response 200 ''200 OK'' ''null+errors''"
  let ?c = "ex_client ''u'' (Inr ?resp)"
  let ?req = "ex_request\<lparr>ReqBody := JObject [(''query'', JString ''mutation{star}'')]\<rparr>"
  let ?R = "Client_do ex_env ?c () mutationOperation ''old'' None []"
  have log: "calls (snd ?R) =
      [CallNewRequest ''POST'' ''u'' (JObject [(''query'', JString ''mutation{star}'')]),
       CallOption 0, CallSend ?req, CallDecode, CallClose]"
    by (simp add: ex_eval)
  have sent: "CallSend ?req \<in> set (calls (snd ?R))"
    by (simp add: log)
  have answered: "httpClient ?c ?req = Inr ?resp"
    by (simp add: ex_client_def NewClient_def)
  have ok: "StatusCode ?resp = StatusOK"
    by (simp add: ex_response_def StatusOK_def)
  have decoded: "Decode ex_env (Body ?resp) = Inr \<lparr>Data = None, Errors = [ex_error ''not found'', ex_error ''denied'']\<rparr>"
    by (simp add: ex_env_def ex_response_def ex_Decode_def)
  have "fst ?R = Some (GraphQLErrors [ex_error ''not found'', ex_error ''denied'']) \<and> target (snd ?R) = ''old''"
    using null_data_with_errors [OF sent answered ok decoded] by simp
  then show ?thesis
    using log by (cases ?R) (simp add: Client_Mutate_def state.equality)
qed



text \<open>
  Claim C4. The transport answers with a status code other than 200. Then \<^verbatim>\<open>do\<close> returns
  the error built by \<^verbatim>\<open>fmt.Errorf\<close> from the status line and the bytes \<^verbatim>\<open>io.ReadAll\<close> got
  from the body, and the decoder of the envelope is never called.
\<close>

theorem status_not_ok:
  fixes env :: "('c, 't, 'v) collaborators" and c ctx op v variables opts
  defines "R \<equiv> Client_do env c ctx op v variables opts"
  assumes sent: "CallSend req \<in> set (calls (snd R))"
    and answered: "httpClient c req = Inr resp"
    and status: "StatusCode resp \<noteq> StatusOK"
  shows "fst R = Some (Errorf ''non-200 OK status code: %v body: %q''
                         [ArgString (Status resp), ArgBytes (fst (ReadAll (Body resp)))])
       \<and> CallDecode \<notin> set (calls (snd R))"
proof -
  obtain s where p: "do_prepare env c ctx op \<lparr>target = v, calls = []\<rparr> variables opts = (Inr req, s)"
    using Client_do_sent [OF sent [unfolded R_def]] by blast
  have "filter (\<lambda>x. x = CallDecode) (calls s) = []"
    using do_prepare_filter [of "\<lambda>x. x = CallDecode" env c ctx op "\<lparr>target = v, calls = []\<rparr>" variables opts] p
    by simp
  then have d: "CallDecode \<notin> set (calls s)"
    by (auto simp: filter_empty_conv)
  have "fst R = fst (do_receive env resp (log_call (CallSend req) s))"
    and "snd R = log_call CallClose (snd (do_receive env resp (log_call (CallSend req) s)))"
    unfolding R_def using Client_do_answered [OF p answered] by simp_all
  then show ?thesis
    using status d by (simp add: do_receive_status ReadAll_def log_call_def)
qed

text \<open>The theorem on the sample client.\<close>

theorem status_not_ok_witness:
  "fst (Client_do ex_env (ex_client ''u'' (Inr (ex_response 502 ''502 Bad Gateway'' ''upstream down''))) () queryOperation ''old'' None [])
     = Some (Errorf ''non-200 OK status code: %v body: %q'' [ArgString ''502 Bad Gateway'', ArgBytes ''upstream down''])
   \<and> CallDecode \<notin> set (calls (snd (Client_do ex_env (ex_client ''u'' (Inr (ex_response 502 ''502 Bad Gateway'' ''upstream down''))) () queryOperation ''old'' None [])))"
proof -
  let ?resp = "ex_response 502 ''502 Bad Gateway'' ''upstream down''"
  let ?c = "ex_client ''u'' (Inr ?resp)"
  have sent: "CallSend ex_request \<in> set (calls (snd (Client_do ex_env ?c () queryOperation ''old'' None [])))"
    by (simp add: ex_eval)
  have answered: "httpClient ?c ex_request = Inr ?resp"
    by (simp add: ex_client_def NewClient_def)
  have status: "StatusCode ?resp \<noteq> StatusOK"
    by (simp add: ex_response_def StatusOK_def)
  show ?thesis
    using status_not_ok [OF sent answered status]
    by (simp add: ex_response_def ReadAll_def)
qed

text \<open>
  Claim C5. Once the payload is encoded and the request built, the options run in the
  order of \<^verbatim>\<open>allOpts\<close>, those of the client before those of the call, each on the request
  the ones before it left. When all succeed, every option has run once, in order, and
  the request sent is the one the last option left. When one fails after all before it
  succeeded, no later option runs, nothing is sent, and \<^verbatim>\<open>do\<close> returns the
  \<^verbatim>\<open>OptionError\<close> around the error of that option, which \<^verbatim>\<open>Unwrap\<close> gives back.
\<close>

theorem options_in_order:
  fixes env :: "('c, 't, 'v) collaborators" and c ctx op v variables opts
  defines "R \<equiv> Client_do env c ctx op v variables opts"
  assumes encoded: "Encode (Marshal env) \<lparr>Query = do_query env op v variables, Variables = variables\<rparr> = Inr buf"
    and built: "NewRequestWithContext env ctx MethodPost (url c) buf = Inr req"
  shows "(all_succeed (requestOptions c @ opts) (with_content_type req) \<longrightarrow>
            filter is_option (calls (snd R)) = map CallOption [0..<length (requestOptions c) + length opts]
          \<and> filter is_send (calls (snd R)) =
              [CallSend (thread opts (thread (requestOptions c) (with_content_type req)))])
       \<and> (\<forall>pre opt post err.
            requestOptions c @ opts = pre @ opt # post
            \<and> all_succeed pre (with_content_type req)
            \<and> fst (opt (thread pre (with_content_type req))) = Some err \<longrightarrow>
              fst R = Some (OptionError err)
            \<and> OptionError_Unwrap (OptionError err) = Some err
            \<and> filter is_option (calls (snd R)) = map CallOption [0..<Suc (length pre)]
            \<and> filter is_send (calls (snd R)) = [])"
proof (intro conjI impI allI)
  let ?s = "log_call (CallNewRequest MethodPost (url c) buf) \<lparr>target = v, calls = []\<rparr>"
  have prep: "do_prepare env c ctx op \<lparr>target = v, calls = []\<rparr> variables opts =
        apply_options (requestOptions c @ opts) 0 (with_content_type req) ?s"
    using do_prepare_built [of env op "\<lparr>target = v, calls = []\<rparr>" variables buf ctx c req opts] encoded built
    by simp
  have filt: "filter is_option (map CallOption xs) = map CallOption xs"
    "filter is_send (map CallOption xs) = []" for xs :: "nat list"
    by (induction xs) simp_all
  {
    assume ok: "all_succeed (requestOptions c @ opts) (with_content_type req)"
    have p: "do_prepare env c ctx op \<lparr>target = v, calls = []\<rparr> variables opts =
        (Inr (thread (requestOptions c @ opts) (with_content_type req)),
         ?s\<lparr>calls := calls ?s @ map CallOption [0..<0 + length (requestOptions c @ opts)]\<rparr>)"
      unfolding prep by (rule apply_options_ok [OF ok])
    obtain more where m: "calls (snd R) =
        calls (?s\<lparr>calls := calls ?s @ map CallOption [0..<0 + length (requestOptions c @ opts)]\<rparr>) @
        CallSend (thread (requestOptions c @ opts) (with_content_type req)) # more"
      "filter is_option more = []" "filter is_send more = []"
      unfolding R_def using Client_do_calls [OF p] by blast
    show "filter is_option (calls (snd R)) = map CallOption [0..<length (requestOptions c) + length opts]"
      using m filt by (simp add: log_call_def del: upt_Suc)
    show "filter is_send (calls (snd R)) =
        [CallSend (thread opts (thread (requestOptions c) (with_content_type req)))]"
      using m filt by (simp add: log_call_def thread_append del: upt_Suc)
  }
  fix pre opt post err
  assume a: "requestOptions c @ opts = pre @ opt # post
            \<and> all_succeed pre (with_content_type req)
            \<and> fst (opt (thread pre (with_content_type req))) = Some err"
  have p: "do_prepare env c ctx op \<lparr>target = v, calls = []\<rparr> variables opts =
      (Inl (OptionError err), ?s\<lparr>calls := calls ?s @ map CallOption [0..<0 + Suc (length pre)]\<rparr>)"
    unfolding prep using a apply_options_fail [of pre "with_content_type req" opt err post 0 ?s] by simp
  have r: "R = (Some (OptionError err), ?s\<lparr>calls := calls ?s @ map CallOption [0..<0 + Suc (length pre)]\<rparr>)"
    unfolding R_def by (rule Client_do_refused [OF p])
  show "fst R = Some (OptionError err)" by (simp add: r)
  show "OptionError_Unwrap (OptionError err) = Some err" by simp
  show "filter is_option (calls (snd R)) = map CallOption [0..<Suc (length pre)]"
    using filt by (simp add: r log_call_def del: upt_Suc)
  show "filter is_send (calls (snd R)) = []"
    using filt by (simp add: r log_call_def del: upt_Suc)
qed

text \<open>The theorem on the sample client.\<close>

theorem options_in_order_witness:
  "filter is_option (calls (snd (Client_do ex_env (ex_client ''u'' (Inl (Foreign ''refused''))) () queryOperation ''old'' None [ex_agent])))
     = [CallOption 0, CallOption 1]
   \<and> filter is_send (calls (snd (Client_do ex_env (ex_client ''u'' (Inl (Foreign ''refused''))) () queryOperation ''old'' None [ex_agent])))
     = [CallSend (ex_request\<lparr>Header := [(''Content-Type'', [''application/json'']), (''Authorization'', [''token'']), (''User-Agent'', [''ex''])]\<rparr>)]
   \<and> fst (Client_do ex_env (ex_client ''u'' (Inl (Foreign ''refused''))) () queryOperation ''old'' None [ex_agent, ex_broken, ex_agent])
     = Some (OptionError (Foreign ''no token''))
   \<and> filter is_option (calls (snd (Client_do ex_env (ex_client ''u'' (Inl (Foreign ''refused''))) () queryOperation ''old'' None [ex_agent, ex_broken, ex_agent])))
     = [CallOption 0, CallOption 1, CallOption 2]
   \<and> filter is_send (calls (snd (Client_do ex_env (ex_client ''u'' (Inl (Foreign ''refused''))) () queryOperation ''old'' None [ex_agent, ex_broken, ex_agent])))
     = []"
proof -
  let ?c = "ex_client ''u'' (Inl (Foreign ''refused''))"
  let ?req = "\<lparr>Ctx = (), Method = ''POST'', URL = ''u'', Header = [], ReqBody = ex_payload\<rparr>"
  have encoded: "Encode (Marshal ex_env) \<lparr>Query = do_query ex_env queryOperation ''old'' None, Variables = None\<rparr> = Inr ex_payload"
    by (simp add: Encode_def do_query_def ex_env_def ex_payload_def)
  have built: "NewRequestWithContext ex_env () MethodPost (url ?c) ex_payload = Inr ?req"
    by (simp add: ex_env_def ex_client_def NewClient_def MethodPost_def)
  have good: "all_succeed (requestOptions ?c @ [ex_agent]) (with_content_type ?req)"
    by (simp add: ex_client_def NewClient_def ex_auth_def ex_agent_def Header_Set_def canonical_sample_keys)
  have bad: "requestOptions ?c @ [ex_agent, ex_broken, ex_agent] = [ex_auth, ex_agent] @ ex_broken # [ex_agent]
      \<and> all_succeed [ex_auth, ex_agent] (with_content_type ?req)
      \<and> fst (ex_broken (thread [ex_auth, ex_agent] (with_content_type ?req))) = Some (Foreign ''no token'')"
    by (simp add: ex_client_def NewClient_def ex_auth_def ex_agent_def ex_broken_def Header_Set_def canonical_sample_keys)
  have upt2: "[0..<Suc (Suc 0)] = [0, Suc 0]" "[0..<Suc (Suc (Suc 0))] = [0, Suc 0, Suc (Suc 0)]"
    by (simp_all add: upt_rec)
  have "filter is_option (calls (snd (Client_do ex_env ?c () queryOperation ''old'' None [ex_agent])))
          = map CallOption [0..<length (requestOptions ?c) + length [ex_agent]]
      \<and> filter is_send (calls (snd (Client_do ex_env ?c () queryOperation ''old'' None [ex_agent])))
          = [CallSend (thread [ex_agent] (thread (requestOptions ?c) (with_content_type ?req)))]"
    using options_in_order [OF encoded built, of "[ex_agent]"] good by blast
  moreover have "fst (Client_do ex_env ?c () queryOperation ''old'' None [ex_agent, ex_broken, ex_agent])
          = Some (OptionError (Foreign ''no token''))
      \<and> filter is_option (calls (snd (Client_do ex_env ?c () queryOperation ''old'' None [ex_agent, ex_broken, ex_agent])))
          = map CallOption [0..<Suc (length [ex_auth, ex_agent])]
      \<and> filter is_send (calls (snd (Client_do ex_env ?c () queryOperation ''old'' None [ex_agent, ex_broken, ex_agent]))) = []"
    using options_in_order [OF encoded built, of "[ex_agent, ex_broken, ex_agent]"] bad by blast
  ultimately show ?thesis
    by (simp add: upt2 thread_def with_content_type_def ex_client_def NewClient_def
        ex_auth_def ex_agent_def ex_request_def Header_Set_def canonical_sample_keys)
qed

text \<open>
  Claim C6. For a query and for a mutation, when every variable can be encoded, the first
  outside call of \<^verbatim>\<open>do\<close> builds the request with a body that is a JSON object whose
  member \<^verbatim>\<open>query\<close> is the compiled document. When the map of variables is nil or empty
  the object has no other member, so no key \<^verbatim>\<open>variables\<close>. Otherwise its second and last
  member is \<^verbatim>\<open>variables\<close>, an object with the keys of the map, each with the encoding of
  the value the caller bound to it.
\<close>

theorem wire_payload:
  fixes env :: "('c, 't, 'v) collaborators" and c ctx op v variables opts
  defines "R \<equiv> Client_do env c ctx op v variables opts"
  assumes operation: "(op = queryOperation \<and> doc = constructQuery env v variables)
                    \<or> (op = mutationOperation \<and> doc = constructMutation env v variables)"
    and encodable: "\<forall>kvs. variables = Some kvs \<longrightarrow> (\<forall>(k, x) \<in> set kvs. \<exists>j. Marshal env x = Inr j)"
  shows "\<exists>ms more. calls (snd R) = CallNewRequest MethodPost (url c) (JObject ms) # more
       \<and> map_of ms ''query'' = Some (JString doc)
       \<and> (variables = None \<or> variables = Some [] \<longrightarrow>
            ms = [(''query'', JString doc)] \<and> map_of ms ''variables'' = None)
       \<and> (\<forall>kvs. variables = Some kvs \<and> kvs \<noteq> [] \<longrightarrow>
            (\<exists>js. ms = [(''query'', JString doc), (''variables'', JObject js)]
                \<and> list_all2 (\<lambda>(k, x) (k', j). k' = k \<and> Marshal env x = Inr j) kvs js))"
proof -
  have doc: "do_query env op v variables = doc"
    using operation by (auto simp: do_query_def queryOperation_def mutationOperation_def)
  have "\<exists>ms. Encode (Marshal env) \<lparr>Query = doc, Variables = variables\<rparr> = Inr (JObject ms)
       \<and> map_of ms ''query'' = Some (JString doc)
       \<and> (variables = None \<or> variables = Some [] \<longrightarrow>
            ms = [(''query'', JString doc)] \<and> map_of ms ''variables'' = None)
       \<and> (\<forall>kvs. variables = Some kvs \<and> kvs \<noteq> [] \<longrightarrow>
            (\<exists>js. ms = [(''query'', JString doc), (''variables'', JObject js)]
                \<and> list_all2 (\<lambda>(k, x) (k', j). k' = k \<and> Marshal env x = Inr j) kvs js))"
  proof (cases variables)
    case None
    then show ?thesis by (simp add: Encode_def)
  next
    case (Some kvs)
    show ?thesis
    proof (cases "kvs = []")
      case True
      then show ?thesis using Some by (simp add: Encode_def)
    next
      case False
      obtain js where "marshal_entries (Marshal env) kvs = Inr js"
        and "list_all2 (\<lambda>(k, x) (k', j). k' = k \<and> Marshal env x = Inr j) kvs js"
        using marshal_entries_ok [of kvs "Marshal env"] encodable Some by blast
      then show ?thesis using Some False by (simp add: Encode_def)
    qed
  qed
  then obtain ms where e: "Encode (Marshal env) \<lparr>Query = doc, Variables = variables\<rparr> = Inr (JObject ms)"
    and q: "map_of ms ''query'' = Some (JString doc)"
    and n: "variables = None \<or> variables = Some [] \<longrightarrow>
            ms = [(''query'', JString doc)] \<and> map_of ms ''variables'' = None"
    and m: "\<forall>kvs. variables = Some kvs \<and> kvs \<noteq> [] \<longrightarrow>
            (\<exists>js. ms = [(''query'', JString doc), (''variables'', JObject js)]
                \<and> list_all2 (\<lambda>(k, x) (k', j). k' = k \<and> Marshal env x = Inr j) kvs js)"
    by blast
  obtain more where "calls (snd (do_prepare env c ctx op \<lparr>target = v, calls = []\<rparr> variables opts)) =
      CallNewRequest MethodPost (url c) (JObject ms) # more"
    using do_prepare_first_call [of env op "\<lparr>target = v, calls = []\<rparr>" variables "JObject ms" c ctx opts] e doc
    by auto
  moreover obtain more' where "calls (snd R) =
      calls (snd (do_prepare env c ctx op \<lparr>target = v, calls = []\<rparr> variables opts)) @ more'"
    unfolding R_def using Client_do_extends [of env c ctx op v variables opts] by (elim exE)
  ultimately have "calls (snd R) = CallNewRequest MethodPost (url c) (JObject ms) # (more @ more')"
    by simp
  then show ?thesis using q n m by blast
qed

text \<open>The theorem on the sample client.\<close>

theorem wire_payload_witness:
  "(\<exists>ms more.
      calls (snd (Client_do ex_env (ex_client ''u'' (Inl (Foreign ''refused''))) () queryOperation ''old''
        (Some [(''first'', Some (JNumber ''5'')), (''login'', Some (JString ''gopher''))]) [])) =
        CallNewRequest MethodPost ''u'' (JObject ms) # more
      \<and> map_of ms ''query'' = Some (JString ''{viewer{login}}'')
      \<and> (\<exists>js. ms = [(''query'', JString ''{viewer{login}}''), (''variables'', JObject js)]
            \<and> list_all2 (\<lambda>(k, x) (k', j). k' = k \<and> ex_Marshal x = Inr j)
                 [(''first'', Some (JNumber ''5'')), (''login'', Some (JString ''gopher''))] js))
   \<and> hd (calls (snd (Client_do ex_env (ex_client ''u'' (Inl (Foreign ''refused''))) () queryOperation ''old''
        (Some [(''first'', Some (JNumber ''5'')), (''login'', Some (JString ''gopher''))]) []))) =
      CallNewRequest ''POST'' ''u''
        (JObject [(''query'', JString ''{viewer{login}}''),
                  (''variables'', JObject [(''first'', JNumber ''5''), (''login'', JString ''gopher'')])])
   \<and> (\<exists>ms more.
      calls (snd (Client_do ex_env (ex_client ''u'' (Inl (Foreign ''refused''))) () mutationOperation ''old'' (Some []) [])) =
        CallNewRequest MethodPost ''u'' (JObject ms) # more
      \<and> ms = [(''query'', JString ''mutation{star}'')] \<and> map_of ms ''variables'' = None)"
proof -
  let ?c = "ex_client ''u'' (Inl (Foreign ''refused''))"
  let ?vars = "[(''first'', Some (JNumber ''5'')), (''login'', Some (JString ''gopher''))]"
  have q: "(queryOperation = queryOperation \<and> ''{viewer{login}}'' = constructQuery ex_env ''old'' (Some ?vars))
         \<or> (queryOperation = mutationOperation \<and> ''{viewer{login}}'' = constructMutation ex_env ''old'' (Some ?vars))"
    by (simp add: ex_env_def)
  have m: "(mutationOperation = queryOperation \<and> ''mutation{star}'' = constructQuery ex_env ''old'' (Some []))
         \<or> (mutationOperation = mutationOperation \<and> ''mutation{star}'' = constructMutation ex_env ''old'' (Some []))"
    by (simp add: ex_env_def)
  have e1: "\<forall>kvs. Some ?vars = Some kvs \<longrightarrow> (\<forall>(k, x) \<in> set kvs. \<exists>j. Marshal ex_env x = Inr j)"
    by (simp add: ex_env_def ex_Marshal_def)
  have e2: "\<forall>kvs. Some [] = Some kvs \<longrightarrow> (\<forall>(k, x) \<in> set kvs. \<exists>j. Marshal ex_env x = Inr j)"
    by simp
  have u: "url ?c = ''u''" and ma: "Marshal ex_env = ex_Marshal"
    by (simp_all add: ex_client_def NewClient_def ex_env_def)
  have first: "\<exists>ms more.
      calls (snd (Client_do ex_env ?c () queryOperation ''old'' (Some ?vars) [])) =
        CallNewRequest MethodPost ''u'' (JObject ms) # more
      \<and> map_of ms ''query'' = Some (JString ''{viewer{login}}'')
      \<and> (\<exists>js. ms = [(''query'', JString ''{viewer{login}}''), (''variables'', JObject js)]
            \<and> list_all2 (\<lambda>(k, x) (k', j). k' = k \<and> ex_Marshal x = Inr j) ?vars js)"
    using wire_payload [OF q e1, of ?c "()" "[]"] unfolding u ma by simp
  have second: "\<exists>ms more.
      calls (snd (Client_do ex_env ?c () mutationOperation ''old'' (Some []) [])) =
        CallNewRequest MethodPost ''u'' (JObject ms) # more
      \<and> ms = [(''query'', JString ''mutation{star}'')] \<and> map_of ms ''variables'' = None"
    using wire_payload [OF m e2, of ?c "()" "[]"] unfolding u by simp
  have run: "hd (calls (snd (Client_do ex_env ?c () queryOperation ''old'' (Some ?vars) []))) =
      CallNewRequest ''POST'' ''u''
        (JObject [(''query'', JString ''{viewer{login}}''),
                  (''variables'', JObject [(''first'', JNumber ''5''), (''login'', JString ''gopher'')])])"
    by (simp add: ex_eval)
  show ?thesis
    using first second run by (intro conjI)
qed

text \<open>
  Claim C7. In every call of \<^verbatim>\<open>do\<close> the transport is invoked at most once. When the
  transport fails, when the status is not 200, when the envelope cannot be decoded and
  when the data cannot be materialized, that failure is what \<^verbatim>\<open>do\<close> returns, and the
  transport has been invoked exactly once.
\<close>

theorem no_retry:
  fixes env :: "('c, 't, 'v) collaborators" and c ctx op v variables opts
  defines "R \<equiv> Client_do env c ctx op v variables opts"
  shows "sends (calls (snd R)) \<le> 1
       \<and> (\<forall>req err. CallSend req \<in> set (calls (snd R)) \<and> httpClient c req = Inl err \<longrightarrow>
            fst R = Some err \<and> sends (calls (snd R)) = 1)
       \<and> (\<forall>req resp. CallSend req \<in> set (calls (snd R)) \<and> httpClient c req = Inr resp
            \<and> StatusCode resp \<noteq> StatusOK \<longrightarrow>
            (\<exists>f args. fst R = Some (Errorf f args)) \<and> sends (calls (snd R)) = 1)
       \<and> (\<forall>req resp err. CallSend req \<in> set (calls (snd R)) \<and> httpClient c req = Inr resp
            \<and> StatusCode resp = StatusOK \<and> Decode env (Body resp) = Inl err \<longrightarrow>
            fst R = Some err \<and> sends (calls (snd R)) = 1)
       \<and> (\<forall>req resp out raw err. CallSend req \<in> set (calls (snd R)) \<and> httpClient c req = Inr resp
            \<and> StatusCode resp = StatusOK \<and> Decode env (Body resp) = Inr out
            \<and> Data out = Some raw \<and> fst (UnmarshalGraphQL env raw v) = Some err \<longrightarrow>
            fst R = Some err \<and> sends (calls (snd R)) = 1)"
proof -
  have bound: "sends (calls (snd R)) \<le> 1"
    unfolding R_def by (simp add: Client_do_sends split: sum.splits)
  have once: "sends (calls (snd R)) = 1" if sent: "CallSend req \<in> set (calls (snd R))" for req
  proof -
    obtain s where "do_prepare env c ctx op \<lparr>target = v, calls = []\<rparr> variables opts = (Inr req, s)"
      using Client_do_sent [OF sent [unfolded R_def]] by blast
    then show ?thesis unfolding R_def by (simp add: Client_do_sends)
  qed
  have transport: "fst R = Some err"
    if sent: "CallSend req \<in> set (calls (snd R))" and "httpClient c req = Inl err" for req err
  proof -
    obtain s where "do_prepare env c ctx op \<lparr>target = v, calls = []\<rparr> variables opts = (Inr req, s)"
      using Client_do_sent [OF sent [unfolded R_def]] by blast
    then show ?thesis unfolding R_def using that(2) by (simp add: Client_do_unanswered)
  qed
  have received: "fst R = fst (do_receive env resp (log_call (CallSend req) s)) \<and> target s = v"
    if "do_prepare env c ctx op \<lparr>target = v, calls = []\<rparr> variables opts = (Inr req, s)"
      and answered: "httpClient c req = Inr resp" for req resp s
    unfolding R_def using Client_do_answered(1) [OF that]
      do_prepare_target [of env c ctx op "\<lparr>target = v, calls = []\<rparr>" variables opts] that(1)
    by simp
  have status: "\<exists>f args. fst R = Some (Errorf f args)"
    if sent: "CallSend req \<in> set (calls (snd R))" and answered: "httpClient c req = Inr resp"
      and "StatusCode resp \<noteq> StatusOK" for req resp
  proof -
    obtain s where "do_prepare env c ctx op \<lparr>target = v, calls = []\<rparr> variables opts = (Inr req, s)"
      using Client_do_sent [OF sent [unfolded R_def]] by blast
    then show ?thesis using received that(2,3) by (simp add: do_receive_status)
  qed
  have undecoded: "fst R = Some err"
    if sent: "CallSend req \<in> set (calls (snd R))" and answered: "httpClient c req = Inr resp"
      and "StatusCode resp = StatusOK" and "Decode env (Body resp) = Inl err" for req resp err
  proof -
    obtain s where "do_prepare env c ctx op \<lparr>target = v, calls = []\<rparr> variables opts = (Inr req, s)"
      using Client_do_sent [OF sent [unfolded R_def]] by blast
    then show ?thesis using received that(2,3,4) by (simp add: do_receive_undecoded)
  qed
  have unmaterialized: "fst R = Some err"
    if sent: "CallSend req \<in> set (calls (snd R))" and answered: "httpClient c req = Inr resp"
      and "StatusCode resp = StatusOK" and "Decode env (Body resp) = Inr out"
      and "Data out = Some raw" and "fst (UnmarshalGraphQL env raw v) = Some err"
    for req resp out raw err
  proof -
    obtain s where "do_prepare env c ctx op \<lparr>target = v, calls = []\<rparr> variables opts = (Inr req, s)"
      using Client_do_sent [OF sent [unfolded R_def]] by blast
    then show ?thesis using received that(2-)
      by (simp add: do_receive_decoded(1) do_materialize_error log_call_target)
  qed
  show ?thesis
    using bound once transport status undecoded unmaterialized by blast
qed

text \<open>The theorem on the sample client.\<close>

theorem no_retry_witness:
  "sends (calls (snd (Client_do ex_env (ex_client ''u'' (Inl (Foreign ''connection refused''))) () queryOperation ''old'' None []))) = 1
   \<and> fst (Client_do ex_env (ex_client ''u'' (Inl (Foreign ''connection refused''))) () queryOperation ''old'' None [])
       = Some (Foreign ''connection refused'')
   \<and> sends (calls (snd (Client_do ex_env (ex_client ''u'' (Inr (ex_response 200 ''200 OK'' ''<html>''))) () queryOperation ''old'' None []))) = 1
   \<and> fst (Client_do ex_env (ex_client ''u'' (Inr (ex_response 200 ''200 OK'' ''<html>''))) () queryOperation ''old'' None [])
       = Some (Foreign ''unexpected end of JSON input'')"
proof -
  let ?down = "ex_client ''u'' (Inl (Foreign ''connection refused''))"
  let ?resp = "ex_response 200 ''200 OK'' ''<html>''"
  let ?up = "ex_client ''u'' (Inr ?resp)"
  have s1: "CallSend ex_request \<in> set (calls (snd (Client_do ex_env ?down () queryOperation ''old'' None [])))
      \<and> httpClient ?down ex_request = Inl (Foreign ''connection refused'')"
    by (simp add: ex_eval)
  have s2: "CallSend ex_request \<in> set (calls (snd (Client_do ex_env ?up () queryOperation ''old'' None [])))
      \<and> httpClient ?up ex_request = Inr ?resp \<and> StatusCode ?resp = StatusOK
      \<and> Decode ex_env (Body ?resp) = Inl (Foreign ''unexpected end of JSON input'')"
    by (simp add: ex_eval)
  have "fst (Client_do ex_env ?down () queryOperation ''old'' None []) = Some (Foreign ''connection refused'')
      \<and> sends (calls (snd (Client_do ex_env ?down () queryOperation ''old'' None []))) = 1"
    using no_retry [of ex_env ?down "()" queryOperation "''old''" None "[]"] s1 by blast
  moreover have "fst (Client_do ex_env ?up () queryOperation ''old'' None []) = Some (Foreign ''unexpected end of JSON input'')
      \<and> sends (calls (snd (Client_do ex_env ?up () queryOperation ''old'' None []))) = 1"
    using no_retry [of ex_env ?up "()" queryOperation "''old''" None "[]"] s2 by blast
  ultimately show ?thesis by simp
qed

text \<open>
  Claim C8, as stated: every \<^verbatim>\<open>GraphQLErrors\<close> value \<^verbatim>\<open>do\<close> returns has at least one
  element. It fails on a run in which a collaborator hands \<^verbatim>\<open>do\<close> an empty
  \<^verbatim>\<open>GraphQLErrors\<close> as its own error: here the materializer does, \<^verbatim>\<open>do\<close> returns that
  value unchanged (lines 104 to 107), it has length 0 and its \<^verbatim>\<open>Error()\<close> panics.
\<close>

theorem handed_over_GraphQLErrors_empty:
  "fst (Client_do ex_env_handing (ex_client ''u'' (Inr (ex_response 200 ''200 OK'' ''data''))) ()
          queryOperation ''old'' None []) = Some (GraphQLErrors [])
   \<and> \<not> 1 \<le> length ([] :: GraphQLErrors)
   \<and> GraphQLErrors_Error [] = None"
  by (simp add: ex_eval ex_env_handing_def GraphQLErrors_Error_def)

text \<open>
  Claim C8, amended. Provided that no collaborator whose error \<^verbatim>\<open>do\<close> returns unchanged
  (the encoder, the request constructor, the transport, the decoder of the envelope,
  the materializer) hands it an empty \<^verbatim>\<open>GraphQLErrors\<close> as its error, every
  \<^verbatim>\<open>GraphQLErrors\<close> value \<^verbatim>\<open>do\<close> returns has at least one element, so its \<^verbatim>\<open>Error()\<close>
  does not panic: it yields the message of the element at index 0. The value \<^verbatim>\<open>do\<close>
  builds itself, from the \<^verbatim>\<open>errors\<close> array of the envelope, is returned under the guard
  \<^verbatim>\<open>len(out.Errors) > 0\<close>; the error of an option is wrapped in an \<^verbatim>\<open>OptionError\<close>.
\<close>

theorem returned_GraphQLErrors_nonempty_unless_handed_over:
  fixes env :: "('c, 't, 'v) collaborators" and c ctx op v variables opts
  assumes returned: "fst (Client_do env c ctx op v variables opts) = Some (GraphQLErrors es)"
    and encoder: "\<forall>x. Marshal env x \<noteq> Inl (GraphQLErrors [])"
    and constructor: "\<forall>ctx' m u b. NewRequestWithContext env ctx' m u b \<noteq> Inl (GraphQLErrors [])"
    and transport: "\<forall>req. httpClient c req \<noteq> Inl (GraphQLErrors [])"
    and decoder: "\<forall>b. Decode env b \<noteq> Inl (GraphQLErrors [])"
    and materializer: "\<forall>raw t. fst (UnmarshalGraphQL env raw t) \<noteq> Some (GraphQLErrors [])"
  shows "1 \<le> length es \<and> GraphQLErrors_Error es = Some (Message (es ! 0))"
proof -
  obtain r s where p: "do_prepare env c ctx op \<lparr>target = v, calls = []\<rparr> variables opts = (r, s)"
    by (cases "do_prepare env c ctx op \<lparr>target = v, calls = []\<rparr> variables opts")
  have "es \<noteq> []"
  proof (cases r)
    case (Inl err)
    then have "err = GraphQLErrors es" using p returned by (simp add: Client_do_refused)
    then show ?thesis
      using do_prepare_error [OF p [unfolded Inl]] encoder constructor by auto
  next
    case (Inr req)
    show ?thesis
    proof (cases "httpClient c req")
      case (Inl err)
      then have "err = GraphQLErrors es" using p Inr returned by (simp add: Client_do_unanswered)
      then show ?thesis using Inl transport by auto
    next
      case answered: (Inr resp)
      have "fst (do_receive env resp (log_call (CallSend req) s)) = Some (GraphQLErrors es)"
        using Client_do_answered(1) [of env c ctx op v variables opts req s resp] p Inr answered returned
        by simp
      from do_receive_GraphQLErrors [OF this]
      show ?thesis using decoder materializer by auto
    qed
  qed
  then show ?thesis by (cases es) (simp_all add: GraphQLErrors_Error_def)
qed

text \<open>The theorem on the sample client.\<close>

theorem returned_GraphQLErrors_nonempty_unless_handed_over_witness:
  "1 \<le> length [ex_error ''not found'', ex_error ''denied'']
   \<and> GraphQLErrors_Error [ex_error ''not found'', ex_error ''denied''] = Some ''not found''"
proof -
  let ?c = "ex_client ''u'' (Inr (ex_response 200 ''200 OK'' ''null+errors''))"
  have returned: "fst (Client_do ex_env ?c () queryOperation ''old'' None [])
      = Some (GraphQLErrors [ex_error ''not found'', ex_error ''denied''])"
    by (simp add: ex_eval)
  have encoder: "\<forall>x. Marshal ex_env x \<noteq> Inl (GraphQLErrors [])"
    by (simp add: ex_env_def ex_Marshal_def split: option.splits)
  have constructor: "\<forall>ctx' m u b. NewRequestWithContext ex_env ctx' m u b \<noteq> Inl (GraphQLErrors [])"
    by (simp add: ex_env_def)
  have transport: "\<forall>req. httpClient ?c req \<noteq> Inl (GraphQLErrors [])"
    by (simp add: ex_client_def NewClient_def)
  have decoder: "\<forall>b. Decode ex_env b \<noteq> Inl (GraphQLErrors [])"
    by (simp add: ex_env_def ex_Decode_def)
  have materializer: "\<forall>raw t. fst (UnmarshalGraphQL ex_env raw t) \<noteq> Some (GraphQLErrors [])"
    by (simp add: ex_env_def ex_UnmarshalGraphQL_def)
  from returned_GraphQLErrors_nonempty_unless_handed_over
    [OF returned encoder constructor transport decoder materializer]
  show ?thesis by (simp add: ex_error_def)
qed

text \<open>
  Claim C9. The envelope has \<^verbatim>\<open>data\<close> that is not null and the materializer fails on it.
  Then \<^verbatim>\<open>do\<close> returns the error of the materializer, unchanged and alone, whatever the
  \<^verbatim>\<open>errors\<close> array holds: the errors of the server are what is returned only if they
  are that very error.
\<close>

theorem materialization_error_wins:
  fixes env :: "('c, 't, 'v) collaborators" and c ctx op v variables opts
  defines "R \<equiv> Client_do env c ctx op v variables opts"
  assumes sent: "CallSend req \<in> set (calls (snd R))"
    and answered: "httpClient c req = Inr resp"
    and ok: "StatusCode resp = StatusOK"
    and decoded: "Decode env (Body resp) = Inr out"
    and data: "Data out = Some raw"
    and failed: "fst (UnmarshalGraphQL env raw v) = Some err"
  shows "fst R = Some err
       \<and> (fst R = Some (GraphQLErrors (Errors out)) \<longrightarrow> err = GraphQLErrors (Errors out))"
proof -
  obtain s where s: "target s = v"
    and r: "fst R = fst (do_receive env resp (log_call (CallSend req) s))"
    using Client_do_round_trip [OF sent [unfolded R_def] answered] unfolding R_def by blast
  have "fst (do_materialize env (Data out) (log_call CallDecode (log_call (CallSend req) s))) = Some err"
    using data failed s by (simp add: do_materialize_error log_call_target)
  then show ?thesis
    by (simp add: r do_receive_decoded(1) [OF ok decoded])
qed

text \<open>The theorem on the sample client.\<close>

theorem materialization_error_wins_witness:
  "fst (Client_do ex_env (ex_client ''u'' (Inr (ex_response 200 ''200 OK'' ''list+errors''))) () queryOperation ''old'' None [])
     = Some (Foreign ''unexpected token'')"
proof -
  let ?resp = "ex_response 200 ''200 OK'' ''list+errors''"
  let ?c = "ex_client ''u'' (Inr ?resp)"
  have sent: "CallSend ex_request \<in> set (calls (snd (Client_do ex_env ?c () queryOperation ''old'' None [])))"
    by (simp add: ex_eval)
  have answered: "httpClient ?c ex_request = Inr ?resp"
    by (simp add: ex_client_def NewClient_def)
  have ok: "StatusCode ?resp = StatusOK"
    by (simp add: ex_response_def StatusOK_def)
  have decoded: "Decode ex_env (Body ?resp) = Inr \<lparr>Data = Some ''[]'', Errors = [ex_error ''rate limited'']\<rparr>"
    by (simp add: ex_env_def ex_response_def ex_Decode_def)
  have failed: "fst (UnmarshalGraphQL ex_env ''[]'' ''old'') = Some (Foreign ''unexpected token'')"
    by (simp add: ex_env_def ex_UnmarshalGraphQL_def)
  show ?thesis
    using materialization_error_wins [OF sent answered ok decoded _ failed] by simp
qed

text \<open>
  Claim C10. A call of \<^verbatim>\<open>do\<close> in which the materializer is never called leaves the
  target as it was. That is the case for each failure before materialization: the
  payload cannot be encoded, the request cannot be built, an option fails, the
  transport fails, the status is not 200, the envelope cannot be decoded.
\<close>

theorem target_untouched_before_materialization:
  fixes env :: "('c, 't, 'v) collaborators" and c ctx op v variables opts
  defines "R \<equiv> Client_do env c ctx op v variables opts"
    and "p \<equiv> \<lparr>Query = do_query env op v variables, Variables = variables\<rparr>"
  shows "(filter is_unmarshal (calls (snd R)) = [] \<longrightarrow> target (snd R) = v)
       \<and> (\<forall>err. Encode (Marshal env) p = Inl err \<longrightarrow>
            fst R = Some err \<and> target (snd R) = v)
       \<and> (\<forall>buf err. Encode (Marshal env) p = Inr buf
            \<and> NewRequestWithContext env ctx MethodPost (url c) buf = Inl err \<longrightarrow>
            fst R = Some err \<and> target (snd R) = v)
       \<and> (\<forall>buf req pre opt post err. Encode (Marshal env) p = Inr buf
            \<and> NewRequestWithContext env ctx MethodPost (url c) buf = Inr req
            \<and> requestOptions c @ opts = pre @ opt # post
            \<and> all_succeed pre (with_content_type req)
            \<and> fst (opt (thread pre (with_content_type req))) = Some err \<longrightarrow>
            fst R = Some (OptionError err) \<and> target (snd R) = v)
       \<and> (\<forall>req err. CallSend req \<in> set (calls (snd R)) \<and> httpClient c req = Inl err \<longrightarrow>
            fst R = Some err \<and> target (snd R) = v)
       \<and> (\<forall>req resp. CallSend req \<in> set (calls (snd R)) \<and> httpClient c req = Inr resp
            \<and> StatusCode resp \<noteq> StatusOK \<longrightarrow>
            (\<exists>f args. fst R = Some (Errorf f args)) \<and> target (snd R) = v)
       \<and> (\<forall>req resp err. CallSend req \<in> set (calls (snd R)) \<and> httpClient c req = Inr resp
            \<and> StatusCode resp = StatusOK \<and> Decode env (Body resp) = Inl err \<longrightarrow>
            fst R = Some err \<and> target (snd R) = v)"
proof -
  let ?init = "\<lparr>target = v, calls = []\<rparr> :: ('c, 't) state"
  have general: "target (snd R) = v" if quiet: "filter is_unmarshal (calls (snd R)) = []"
  proof -
    obtain r s where prep: "do_prepare env c ctx op ?init variables opts = (r, s)"
      by (cases "do_prepare env c ctx op ?init variables opts")
    have t: "target s = v"
      using do_prepare_target [of env c ctx op ?init variables opts] prep by simp
    show ?thesis
    proof (cases r)
      case (Inl err)
      then show ?thesis unfolding R_def using prep t by (simp add: Client_do_refused)
    next
      case (Inr req)
      show ?thesis
      proof (cases "httpClient c req")
        case (Inl err)
        then show ?thesis unfolding R_def using prep Inr t
          by (simp add: Client_do_unanswered log_call_target)
      next
        case answered: (Inr resp)
        have snd: "snd R = log_call CallClose (snd (do_receive env resp (log_call (CallSend req) s)))"
          unfolding R_def using Client_do_answered(2) [of env c ctx op v variables opts req s resp] prep Inr answered
          by simp
        show ?thesis
        proof (cases "StatusCode resp = StatusOK")
          case False
          then show ?thesis using t by (simp add: snd do_receive_status log_call_target)
        next
          case True
          show ?thesis
          proof (cases "Decode env (Body resp)")
            case (Inl err)
            then show ?thesis using True t by (simp add: snd do_receive_undecoded log_call_target)
          next
            case decoded: (Inr out)
            have "Data out = None"
              using quiet True decoded
              by (simp add: snd do_receive_calls log_call_def split: option.splits)
            then show ?thesis using True decoded t
              by (simp add: snd do_receive_decoded(2) do_materialize_target log_call_target)
          qed
        qed
      qed
    qed
  qed
  have refused: "fst R = Some err \<and> target (snd R) = v"
    if "do_prepare env c ctx op ?init variables opts = (Inl err, s)" for err s
    unfolding R_def using that do_prepare_target [of env c ctx op ?init variables opts]
    by (simp add: Client_do_refused)
  have encode: "fst R = Some err \<and> target (snd R) = v"
    if "Encode (Marshal env) p = Inl err" for err
    using that refused [of err ?init] by (simp add: do_prepare_def p_def)
  have build: "fst R = Some err \<and> target (snd R) = v"
    if "Encode (Marshal env) p = Inr buf"
      and "NewRequestWithContext env ctx MethodPost (url c) buf = Inl err" for buf err
    using that refused [of err "log_call (CallNewRequest MethodPost (url c) buf) ?init"]
    by (simp add: do_prepare_def p_def)
  have option: "fst R = Some (OptionError err) \<and> target (snd R) = v"
    if "Encode (Marshal env) p = Inr buf"
      and "NewRequestWithContext env ctx MethodPost (url c) buf = Inr req"
      and "requestOptions c @ opts = pre @ opt # post"
      and "all_succeed pre (with_content_type req)"
      and "fst (opt (thread pre (with_content_type req))) = Some err" for buf req pre opt post err
  proof -
    let ?s = "log_call (CallNewRequest MethodPost (url c) buf) ?init"
    have "do_prepare env c ctx op ?init variables opts =
        apply_options (requestOptions c @ opts) 0 (with_content_type req) ?s"
      using do_prepare_built [of env op ?init variables buf ctx c req opts] that(1,2)
      by (simp add: p_def)
    then have "do_prepare env c ctx op ?init variables opts =
        (Inl (OptionError err), ?s\<lparr>calls := calls ?s @ map CallOption [0..<0 + Suc (length pre)]\<rparr>)"
      using that(3) apply_options_fail [of pre "with_content_type req" opt err post 0 ?s] that(4,5) by simp
    then show ?thesis by (rule refused)
  qed
  have quiet: "filter is_unmarshal (calls (snd R)) = []"
    if sent: "CallSend req \<in> set (calls (snd R))" and answered: "httpClient c req = Inr resp"
      and "StatusCode resp \<noteq> StatusOK \<or> (\<exists>err. Decode env (Body resp) = Inl err)" for req resp
  proof -
    obtain s where "filter is_unmarshal (calls s) = []"
      and "snd R = log_call CallClose (snd (do_receive env resp (log_call (CallSend req) s)))"
      using Client_do_round_trip [OF sent [unfolded R_def] answered] unfolding R_def by blast
    then show ?thesis using that(3)
      by (auto simp: do_receive_calls log_call_def)
  qed
  have transport: "fst R = Some err \<and> target (snd R) = v"
    if sent: "CallSend req \<in> set (calls (snd R))" and "httpClient c req = Inl err" for req err
  proof -
    obtain s where prep: "do_prepare env c ctx op ?init variables opts = (Inr req, s)"
      using Client_do_sent [OF sent [unfolded R_def]] by blast
    then show ?thesis
      unfolding R_def using that(2) do_prepare_target [of env c ctx op ?init variables opts]
      by (simp add: Client_do_unanswered log_call_target)
  qed
  have status: "(\<exists>f args. fst R = Some (Errorf f args)) \<and> target (snd R) = v"
    if sent: "CallSend req \<in> set (calls (snd R))" and answered: "httpClient c req = Inr resp"
      and "StatusCode resp \<noteq> StatusOK" for req resp
  proof -
    obtain s where "fst R = fst (do_receive env resp (log_call (CallSend req) s))"
      using Client_do_round_trip [OF sent [unfolded R_def] answered] unfolding R_def by blast
    then show ?thesis using that(3) general quiet [OF that(1,2)] by (simp add: do_receive_status)
  qed
  have undecoded: "fst R = Some err \<and> target (snd R) = v"
    if sent: "CallSend req \<in> set (calls (snd R))" and answered: "httpClient c req = Inr resp"
      and "StatusCode resp = StatusOK" and "Decode env (Body resp) = Inl err" for req resp err
  proof -
    obtain s where "fst R = fst (do_receive env resp (log_call (CallSend req) s))"
      using Client_do_round_trip [OF sent [unfolded R_def] answered] unfolding R_def by blast
    then show ?thesis using that(3,4) general quiet [OF that(1,2)] by (simp add: do_receive_undecoded)
  qed
  show ?thesis
    using general encode build option transport status undecoded by blast
qed

text \<open>The theorem on the sample client.\<close>

theorem target_untouched_before_materialization_witness:
  "fst (Client_do ex_env (ex_client ''u'' (Inl (Foreign ''refused''))) () queryOperation ''old'' (Some [(''ch'', None)]) [])
       = Some (Foreign ''json: unsupported type: chan int'')
   \<and> target (snd (Client_do ex_env (ex_client ''u'' (Inl (Foreign ''refused''))) () queryOperation ''old'' (Some [(''ch'', None)]) [])) = ''old''
   \<and> fst (Client_do ex_env (ex_client [] (Inl (Foreign ''refused''))) () queryOperation ''old'' None []) = Some (Foreign ''empty url'')
   \<and> target (snd (Client_do ex_env (ex_client [] (Inl (Foreign ''refused''))) () queryOperation ''old'' None [])) = ''old''
   \<and> fst (Client_do ex_env (ex_client ''u'' (Inl (Foreign ''refused''))) () queryOperation ''old'' None [ex_broken])
       = Some (OptionError (Foreign ''no token''))
   \<and> target (snd (Client_do ex_env (ex_client ''u'' (Inl (Foreign ''refused''))) () queryOperation ''old'' None [ex_broken])) = ''old''
   \<and> fst (Client_do ex_env (ex_client ''u'' (Inl (Foreign ''refused''))) () queryOperation ''old'' None []) = Some (Foreign ''refused'')
   \<and> target (snd (Client_do ex_env (ex_client ''u'' (Inl (Foreign ''refused''))) () queryOperation ''old'' None [])) = ''old''
   \<and> target (snd (Client_do ex_env (ex_client ''u'' (Inr (ex_response 404 ''404 Not Found'' ''data''))) () queryOperation ''old'' None [])) = ''old''
   \<and> fst (Client_do ex_env (ex_client ''u'' (Inr (ex_response 200 ''200 OK'' ''<html>''))) () queryOperation ''old'' None [])
       = Some (Foreign ''unexpected end of JSON input'')
   \<and> target (snd (Client_do ex_env (ex_client ''u'' (Inr (ex_response 200 ''200 OK'' ''<html>''))) () queryOperation ''old'' None [])) = ''old''"
proof -
  let ?down = "ex_client ''u'' (Inl (Foreign ''refused''))"
  let ?req = "\<lparr>Ctx = (), Method = ''POST'', URL = ''u'', Header = [], ReqBody = ex_payload\<rparr>"
  let ?missing = "ex_response 404 ''404 Not Found'' ''data''"
  let ?page = "ex_response 200 ''200 OK'' ''<html>''"
  have encode: "Encode (Marshal ex_env) \<lparr>Query = do_query ex_env queryOperation ''old'' (Some [(''ch'', None)]),
        Variables = Some [(''ch'', None)]\<rparr> = Inl (Foreign ''json: unsupported type: chan int'')"
    by (simp add: Encode_def ex_env_def ex_Marshal_def)
  have encoded: "Encode (Marshal ex_env) \<lparr>Query = do_query ex_env queryOperation ''old'' None, Variables = None\<rparr> = Inr ex_payload"
    by (simp add: Encode_def do_query_def ex_env_def ex_payload_def)
  have build: "NewRequestWithContext ex_env () MethodPost (url (ex_client [] (Inl (Foreign ''refused'')))) ex_payload = Inl (Foreign ''empty url'')"
    by (simp add: ex_env_def ex_client_def NewClient_def)
  have option: "NewRequestWithContext ex_env () MethodPost (url ?down) ex_payload = Inr ?req
      \<and> requestOptions ?down @ [ex_broken] = [ex_auth] @ ex_broken # []
      \<and> all_succeed [ex_auth] (with_content_type ?req)
      \<and> fst (ex_broken (thread [ex_auth] (with_content_type ?req))) = Some (Foreign ''no token'')"
    by (simp add: ex_env_def ex_client_def NewClient_def MethodPost_def ex_auth_def ex_broken_def Header_Set_def canonical_sample_keys)
  have transport: "CallSend ex_request \<in> set (calls (snd (Client_do ex_env ?down () queryOperation ''old'' None [])))
      \<and> httpClient ?down ex_request = Inl (Foreign ''refused'')"
    by (simp add: ex_eval)
  have status: "CallSend ex_request \<in> set (calls (snd (Client_do ex_env (ex_client ''u'' (Inr ?missing)) () queryOperation ''old'' None [])))
      \<and> httpClient (ex_client ''u'' (Inr ?missing)) ex_request = Inr ?missing \<and> StatusCode ?missing \<noteq> StatusOK"
    by (simp add: ex_eval)
  have undecoded: "CallSend ex_request \<in> set (calls (snd (Client_do ex_env (ex_client ''u'' (Inr ?page)) () queryOperation ''old'' None [])))
      \<and> httpClient (ex_client ''u'' (Inr ?page)) ex_request = Inr ?page \<and> StatusCode ?page = StatusOK
      \<and> Decode ex_env (Body ?page) = Inl (Foreign ''unexpected end of JSON input'')"
    by (simp add: ex_eval)
  have "fst (Client_do ex_env ?down () queryOperation ''old'' (Some [(''ch'', None)]) [])
          = Some (Foreign ''json: unsupported type: chan int'')
      \<and> target (snd (Client_do ex_env ?down () queryOperation ''old'' (Some [(''ch'', None)]) [])) = ''old''"
    using target_untouched_before_materialization
      [of ex_env ?down "()" queryOperation "''old''" "Some [(''ch'', None)]" "[]"] encode
    by blast
  moreover have "fst (Client_do ex_env (ex_client [] (Inl (Foreign ''refused''))) () queryOperation ''old'' None []) = Some (Foreign ''empty url'')
      \<and> target (snd (Client_do ex_env (ex_client [] (Inl (Foreign ''refused''))) () queryOperation ''old'' None [])) = ''old''"
    using target_untouched_before_materialization
      [of ex_env "ex_client [] (Inl (Foreign ''refused''))" "()" queryOperation "''old''" None "[]"] encoded build
    by blast
  moreover have "fst (Client_do ex_env ?down () queryOperation ''old'' None [ex_broken]) = Some (OptionError (Foreign ''no token''))
      \<and> target (snd (Client_do ex_env ?down () queryOperation ''old'' None [ex_broken])) = ''old''"
    using target_untouched_before_materialization
      [of ex_env ?down "()" queryOperation "''old''" None "[ex_broken]"] encoded option
    by blast
  moreover have "fst (Client_do ex_env ?down () queryOperation ''old'' None []) = Some (Foreign ''refused'')
      \<and> target (snd (Client_do ex_env ?down () queryOperation ''old'' None [])) = ''old''"
    using target_untouched_before_materialization
      [of ex_env ?down "()" queryOperation "''old''" None "[]"] transport
    by blast
  moreover have "target (snd (Client_do ex_env (ex_client ''u'' (Inr ?missing)) () queryOperation ''old'' None [])) = ''old''"
    using target_untouched_before_materialization
      [of ex_env "ex_client ''u'' (Inr ?missing)" "()" queryOperation "''old''" None "[]"] status
    by blast
  moreover have "fst (Client_do ex_env (ex_client ''u'' (Inr ?page)) () queryOperation ''old'' None [])
          = Some (Foreign ''unexpected end of JSON input'')
      \<and> target (snd (Client_do ex_env (ex_client ''u'' (Inr ?page)) () queryOperation ''old'' None [])) = ''old''"
    using target_untouched_before_materialization
      [of ex_env "ex_client ''u'' (Inr ?page)" "()" queryOperation "''old''" None "[]"] undecoded
    by blast
  ultimately show ?thesis by simp
qed

end
